theory Spec2Isabelle
  imports Complex_Main "HOL-Library.Word"
begin

section \<open>JavaScript strings and values\<close>

text \<open>
  A JavaScript string is a sequence of UTF-16 code units. The Korean user-interface
  messages of the scripts are given by their code units; ASCII literals are converted
  with \<open>js\<close>.
\<close>

type_synonym jsstring = "16 word list"

definition js :: "string \<Rightarrow> jsstring" where
  "js s = map of_char s"

text \<open>\<open>String.prototype.trim\<close>: strips WhiteSpace and LineTerminator code units at both ends.\<close>

definition isWhiteSpace :: "16 word \<Rightarrow> bool" where
  "isWhiteSpace c =
     (c \<in> set [0x9, 0xA, 0xB, 0xC, 0xD, 0x20, 0xA0, 0x1680, 0x2028, 0x2029, 0x202F, 0x205F, 0x3000, 0xFEFF]
      \<or> (0x2000 \<le> c \<and> c \<le> 0x200A))"

definition trim :: "jsstring \<Rightarrow> jsstring" where
  "trim s = rev (dropWhile isWhiteSpace (rev (dropWhile isWhiteSpace s)))"

definition startsWith :: "jsstring \<Rightarrow> jsstring \<Rightarrow> bool" where
  "startsWith s p = (take (length p) s = p)"

text \<open>The decimal rendering of a non-negative integer, as a template literal renders \<open>res.status\<close>.\<close>

fun showNat :: "nat \<Rightarrow> jsstring" where
  "showNat n = (if n < 10 then [of_nat (48 + n)] else showNat (n div 10) @ [of_nat (48 + n mod 10)])"

declare showNat.simps [simp del]

fun join :: "jsstring \<Rightarrow> jsstring list \<Rightarrow> jsstring" where
  "join sep [] = []"
| "join sep [x] = x"
| "join sep (x # y # ys) = x @ sep @ join sep (y # ys)"

text \<open>
  Numbers are IEEE doubles; every finite double is a rational, and the two zeros are not
  told apart. The conversions between numbers and strings (\<open>Number(string)\<close>, the string
  of a number) and the wording of a TypeError are left to the platform, a parameter of
  the model: \<open>typeErrorMessage v k\<close> is the message of the TypeError thrown when the
  property \<open>k\<close> of \<open>v\<close> cannot be read or cannot be called.
\<close>

datatype jsnumber = NaN | PosInf | NegInf | Fin rat

datatype jsval =
    JUndefined
  | JNull
  | JBool bool
  | JNum jsnumber
  | JStr jsstring
  | JArr "jsval list"
  | JObj "(jsstring \<times> jsval) list"

datatype exn = Error (message: jsstring)

record platform =
  StringToNumber :: "jsstring \<Rightarrow> jsnumber"
  NumberToString :: "jsnumber \<Rightarrow> jsstring"
  typeErrorMessage :: "jsval \<Rightarrow> jsstring \<Rightarrow> jsstring"

text \<open>Truthiness, as \<open>||\<close> and \<open>!\<close> test it.\<close>

fun truthy :: "jsval \<Rightarrow> bool" where
  "truthy JUndefined = False"
| "truthy JNull = False"
| "truthy (JBool b) = b"
| "truthy (JNum n) = (n \<noteq> NaN \<and> n \<noteq> Fin 0)"
| "truthy (JStr s) = (s \<noteq> [])"
| "truthy (JArr xs) = True"
| "truthy (JObj ps) = True"

text \<open>
  The string of a value parsed from JSON, as a template literal, \<open>String(v)\<close> and the
  assignment to \<open>textContent\<close> compute it. An object is converted through its \<open>toString\<close>:
  an own property of that name, which in a parsed value is never a function, hides the
  inherited method, and the conversion throws a TypeError; otherwise the string is
  "[object Object]". An array is joined with commas, its elements converted in order,
  \<open>null\<close> and \<open>undefined\<close> to the empty string; the first error is thrown.
\<close>

fun sequence :: "(exn + 'a) list \<Rightarrow> exn + 'a list" where
  "sequence [] = Inr []"
| "sequence (Inl e # rs) = Inl e"
| "sequence (Inr x # rs) = (case sequence rs of Inl e \<Rightarrow> Inl e | Inr xs \<Rightarrow> Inr (x # xs))"

fun ToString :: "platform \<Rightarrow> jsval \<Rightarrow> exn + jsstring" where
  "ToString P JUndefined = Inr (js ''undefined'')"
| "ToString P JNull = Inr (js ''null'')"
| "ToString P (JBool b) = Inr (if b then js ''true'' else js ''false'')"
| "ToString P (JNum n) = Inr (NumberToString P n)"
| "ToString P (JStr s) = Inr s"
| "ToString P (JArr xs) =
     (case sequence (map (\<lambda>x. if x = JUndefined \<or> x = JNull then Inr [] else ToString P x) xs) of
        Inl e \<Rightarrow> Inl e
      | Inr strs \<Rightarrow> Inr (join (js '','') strs))"
| "ToString P (JObj ps) =
     (if js ''toString'' \<in> set (map fst ps)
      then Inl (Error (typeErrorMessage P (JObj ps) (js ''toString'')))
      else Inr (js ''[object Object]''))"

text \<open>\<open>Array.prototype.join\<close> with a separator.\<close>

definition Array_join :: "platform \<Rightarrow> jsstring \<Rightarrow> jsval list \<Rightarrow> exn + jsstring" where
  "Array_join P sep xs =
     (case sequence (map (\<lambda>x. if x = JUndefined \<or> x = JNull then Inr [] else ToString P x) xs) of
        Inl e \<Rightarrow> Inl e
      | Inr strs \<Rightarrow> Inr (join sep strs))"

text \<open>
  \<open>Number(v)\<close>: an object or an array is first converted to a string, as its \<open>valueOf\<close>
  gives no primitive value.
\<close>

fun ToNumber :: "platform \<Rightarrow> jsval \<Rightarrow> exn + jsnumber" where
  "ToNumber P JUndefined = Inr NaN"
| "ToNumber P JNull = Inr (Fin 0)"
| "ToNumber P (JBool b) = Inr (if b then Fin 1 else Fin 0)"
| "ToNumber P (JNum n) = Inr n"
| "ToNumber P (JStr s) = Inr (StringToNumber P s)"
| "ToNumber P v =
     (case ToString P v of Inl e \<Rightarrow> Inl e | Inr s \<Rightarrow> Inr (StringToNumber P s))"

text \<open>
  Reading a property of a value parsed from JSON. \<open>null\<close> and \<open>undefined\<close> throw a
  TypeError; an object gives its own property (the last one of that name) or
  \<open>undefined\<close>; the other values have none of the properties the scripts read
  (\<open>content\<close>, \<open>chunks\<close>, \<open>files\<close>, \<open>maxAnswerChars\<close>, \<open>defaultPrompt\<close>).
\<close>

fun getProp :: "platform \<Rightarrow> jsval \<Rightarrow> jsstring \<Rightarrow> exn + jsval" where
  "getProp P (JObj ps) k = Inr (case map_of (rev ps) k of None \<Rightarrow> JUndefined | Some v \<Rightarrow> v)"
| "getProp P JNull k = Inl (Error (typeErrorMessage P JNull k))"
| "getProp P JUndefined k = Inl (Error (typeErrorMessage P JUndefined k))"
| "getProp P v k = Inr JUndefined"

text \<open>
  \<open>JSON.stringify\<close> is kept structured: the request body \<open>JsonBody v\<close> stands for the JSON
  text of \<open>v\<close>. Properties whose value is \<open>undefined\<close> are left out, \<open>undefined\<close> array
  elements and non-finite numbers become \<open>null\<close>.
\<close>

fun jsonValue :: "jsval \<Rightarrow> jsval" where
  "jsonValue (JObj ps) =
     JObj (map (\<lambda>(k, v). (k, jsonValue v)) (filter (\<lambda>(k, v). v \<noteq> JUndefined) ps))"
| "jsonValue (JArr xs) = JArr (map (\<lambda>x. if x = JUndefined then JNull else jsonValue x) xs)"
| "jsonValue (JNum n) = (case n of Fin r \<Rightarrow> JNum (Fin r) | _ \<Rightarrow> JNull)"
| "jsonValue v = v"

section \<open>Files, requests and responses\<close>

text \<open>
  A \<open>File\<close> carries, besides its attributes, what reading it gives: \<open>readAsDataURL\<close> is the
  result of the FileReader (\<open>None\<close> when \<open>onerror\<close> fires), \<open>arrayBuffer\<close> the bytes or the
  rejection of \<open>file.arrayBuffer()\<close>.
\<close>

record jsfile =
  file_name :: jsstring
  file_type :: jsstring
  file_size :: nat
  readAsDataURL :: "jsstring option"
  arrayBuffer :: "exn + 8 word list"

datatype body = NoBody | FileBody jsfile | JsonBody jsval

record request =
  url :: jsstring
  http_method :: jsstring
  headers :: "(jsstring \<times> jsstring) list"
  body :: body

definition JSON_stringify :: "jsval \<Rightarrow> body" where
  "JSON_stringify v = JsonBody (jsonValue v)"

text \<open>
  A response has its status and what each way of reading its body gives (the value, or
  the error the promise rejects with) for \<open>res.text()\<close>, \<open>res.json()\<close> and \<open>res.blob()\<close>.
  \<open>res.ok\<close> is true for the statuses 200 to 299.
\<close>

record response =
  status :: nat
  res_text :: "exn + jsstring"
  res_json :: "exn + jsval"
  res_blob :: "exn + 8 word list"

definition ok :: "response \<Rightarrow> bool" where
  "ok res = (200 \<le> status res \<and> status res \<le> 299)"

text \<open>
  The network is an oracle: \<open>net k\<close> is how the \<open>k\<close>-th call of \<open>fetch\<close> of the page settles,
  with a thrown error or with a response. \<open>fetch\<close> starts a request and returns its
  promise, \<open>await\<close> suspends until the promise has settled; both are recorded in the
  page's trace. A handler is a function from the page before the event to the page after
  its run; the runs of two handlers are not interleaved.
\<close>

datatype event = Started nat request | Settled nat

fun isStarted :: "event \<Rightarrow> bool" where
  "isStarted (Started k r) = True"
| "isStarted (Settled k) = False"

record io =
  trace :: "event list"

type_synonym network = "nat \<Rightarrow> exn + response"

definition fetch :: "request \<Rightarrow> 'a io_scheme \<Rightarrow> nat \<times> 'a io_scheme" where
  "fetch req s = (let k = length (filter isStarted (trace s))
                  in (k, s\<lparr>trace := trace s @ [Started k req]\<rparr>))"

definition await :: "network \<Rightarrow> nat \<Rightarrow> 'a io_scheme \<Rightarrow> (exn + response) \<times> 'a io_scheme" where
  "await net k s = (net k, s\<lparr>trace := trace s @ [Settled k]\<rparr>)"

text \<open>The requests of a trace, in the order they were started.\<close>

fun requests :: "event list \<Rightarrow> request list" where
  "requests [] = []"
| "requests (Started k r # es) = r # requests es"
| "requests (Settled k # es) = requests es"

text \<open>
  What a handler throws for a response that is not OK: it reads the body text and throws
  \<open>new Error(`${res.status} ${text}`)\<close>; reading the body may itself fail, with the
  error of the platform.
\<close>

definition statusError :: "response \<Rightarrow> exn" where
  "statusError res =
     (case res_text res of
        Inl e \<Rightarrow> e
      | Inr text \<Rightarrow> Error (showNat (status res) @ js '' '' @ text))"

section \<open>The chat page (user.js)\<close>

text \<open>
  The page's state: the values of the input elements, the rows of \<open>messagesEl\<close> (each DOM
  node has an identity, which \<open>removeTyping\<close> uses), and the script's variables. The files
  chosen in \<open>imageFileInput\<close> are its state; assigning \<open>""\<close> to its value clears them.
  The scroll position is not part of the model.
\<close>

record hist_entry =
  role :: jsstring
  content :: jsval

text \<open>
  A row of \<open>messagesEl\<close>: a user bubble with its text and, if any, the image (its \<open>src\<close> and
  \<open>alt\<close>); a bot bubble with its text and, if any, the feedback button (the question and
  the answer its listener passes on); the typing indicator with its text.
\<close>

datatype row =
    UserRow jsstring "(jsstring \<times> jsstring) option"
  | BotRow jsstring "(jsstring \<times> jsval) option"
  | TypingRow jsstring

record user_page = io +
  passwordInput :: jsstring
  imageFileInput :: "jsfile list"
  questionInput :: jsstring
  messagesEl :: "(nat \<times> row) list"
  selectedImageDataUrl :: jsstring
  selectedImageName :: jsstring
  conversationHistory :: "hist_entry list"
  isComposing :: bool

definition MAX_HISTORY_MESSAGES :: nat where
  "MAX_HISTORY_MESSAGES = 20"

text \<open>The messages of the page.\<close>

definition msg_enter_password :: jsstring where
  "msg_enter_password =
     [0xBE44, 0xBC00, 0xBC88, 0xD638, 0xB97C, 0x20, 0xC785, 0xB825, 0xD558, 0xC138, 0xC694, 0x2E]"

definition msg_enter_question :: jsstring where
  "msg_enter_question = [0xC9C8, 0xBB38, 0xC744, 0x20, 0xC785, 0xB825, 0xD558, 0xC138, 0xC694, 0x2E]"

definition msg_image_attached :: jsstring where
  "msg_image_attached = [0xC774, 0xBBF8, 0xC9C0, 0x20, 0xCCA8, 0xBD80, 0xB428, 0x3A, 0x20]"

definition msg_image_failed :: jsstring where
  "msg_image_failed = [0xC774, 0xBBF8, 0xC9C0, 0x20, 0xCC98, 0xB9AC, 0x20, 0xC2E4, 0xD328, 0x3A, 0x20]"

definition msg_image_alt :: jsstring where
  "msg_image_alt = [0xCCA8, 0xBD80, 0x20, 0xC774, 0xBBF8, 0xC9C0]"

definition msg_typing :: jsstring where
  "msg_typing =
     [0xC774, 0xC900, 0xC11C, 0x20, 0xAD50, 0xC218, 0x20, 0xACE0, 0xBBFC, 0xC911, 0x2E, 0x2E, 0x2E]"

definition msg_feedback_password :: jsstring where
  "msg_feedback_password =
     [0xC218, 0xC815, 0xC694, 0xCCAD, 0x20, 0xC804, 0x20, 0xBE44, 0xBC00, 0xBC88, 0xD638, 0xB97C, 0x20,
      0xC785, 0xB825, 0xD558, 0xC138, 0xC694, 0x2E]"

definition msg_feedback_saved :: jsstring where
  "msg_feedback_saved =
     [0xC218, 0xC815, 0xC694, 0xCCAD, 0xC774, 0x20, 0xC800, 0xC7A5, 0xB418, 0xC5C8, 0xC2B5, 0xB2C8, 0xB2E4,
      0x2E, 0x20, 0xB2E4, 0xC74C, 0x20, 0xB2F5, 0xBCC0, 0xBD80, 0xD130, 0x20, 0xBC18, 0xC601, 0xB429,
      0xB2C8, 0xB2E4, 0x2E]"

definition msg_feedback_failed :: jsstring where
  "msg_feedback_failed =
     [0xC218, 0xC815, 0xC694, 0xCCAD, 0x20, 0xC800, 0xC7A5, 0x20, 0xC2E4, 0xD328, 0x3A, 0x20]"

definition msg_only_images :: jsstring where
  "msg_only_images =
     [0xC774, 0xBBF8, 0xC9C0, 0x20, 0xD30C, 0xC77C, 0xB9CC, 0x20, 0xC5C5, 0xB85C, 0xB4DC, 0xD560, 0x20,
      0xC218, 0x20, 0xC788, 0xC2B5, 0xB2C8, 0xB2E4, 0x2E]"

definition msg_image_too_large :: jsstring where
  "msg_image_too_large =
     [0xC774, 0xBBF8, 0xC9C0, 0xB294, 0x20, 0x34, 0x4D, 0x42, 0x20, 0xC774, 0xD558, 0xB9CC, 0x20, 0xAC00,
      0xB2A5, 0xD569, 0xB2C8, 0xB2E4, 0x2E]"

definition msg_image_unreadable :: jsstring where
  "msg_image_unreadable =
     [0xC774, 0xBBF8, 0xC9C0, 0xB97C, 0x20, 0xC77D, 0xC744, 0x20, 0xC218, 0x20, 0xC5C6, 0xC2B5, 0xB2C8,
      0xB2E4, 0x2E]"

text \<open>\<open>document.createElement\<close> gives a node that is none of the rows of \<open>messagesEl\<close>.\<close>

definition createElement :: "user_page \<Rightarrow> nat" where
  "createElement s = Suc (fold max (map fst (messagesEl s)) 0)"

definition appendUserMessage :: "jsstring \<Rightarrow> jsstring \<Rightarrow> user_page \<Rightarrow> user_page" where
  "appendUserMessage text imageDataUrl s =
     (let img = (if imageDataUrl \<noteq> []
                 then Some (imageDataUrl,
                            if selectedImageName s \<noteq> [] then selectedImageName s else msg_image_alt)
                 else None)
      in s\<lparr>messagesEl := messagesEl s @ [(createElement s, UserRow text img)]\<rparr>)"

text \<open>
  \<open>appendBotMessage(text, {allowFeedback, question})\<close>: the bubble shows \<open>text\<close> as a string;
  the feedback button, when asked for, keeps \<open>question\<close> and \<open>text\<close> for \<open>submitFeedback\<close>.
  The assignment to \<open>textContent\<close> converts \<open>text\<close> to a string and throws when that
  throws; the row is then not yet in \<open>messagesEl\<close>.
\<close>

definition appendBotMessage ::
  "platform \<Rightarrow> jsval \<Rightarrow> bool \<Rightarrow> jsstring \<Rightarrow> user_page \<Rightarrow> exn + user_page" where
  "appendBotMessage P text allowFeedback question s =
     (case ToString P text of
        Inl e \<Rightarrow> Inl e
      | Inr shown \<Rightarrow>
          Inr (s\<lparr>messagesEl := messagesEl s @
                 [(createElement s,
                   BotRow shown (if allowFeedback then Some (question, text) else None))]\<rparr>))"

text \<open>
  A statement outside every \<open>try\<close> block: an error it throws ends the handler, and the
  page stays as it was before the statement.
\<close>

definition uncaught :: "'s \<Rightarrow> exn + 's \<Rightarrow> 's" where
  "uncaught s r = (case r of Inl e \<Rightarrow> s | Inr s' \<Rightarrow> s')"

definition appendTyping :: "user_page \<Rightarrow> nat \<times> user_page" where
  "appendTyping s =
     (let row = createElement s
      in (row, s\<lparr>messagesEl := messagesEl s @ [(row, TypingRow msg_typing)]\<rparr>))"

definition removeTyping :: "nat \<Rightarrow> user_page \<Rightarrow> user_page" where
  "removeTyping node s = s\<lparr>messagesEl := filter (\<lambda>(i, r). i \<noteq> node) (messagesEl s)\<rparr>"

definition pushHistory :: "jsstring \<Rightarrow> jsval \<Rightarrow> user_page \<Rightarrow> user_page" where
  "pushHistory r c s =
     (let h = conversationHistory s @ [\<lparr>role = r, content = c\<rparr>]
      in s\<lparr>conversationHistory :=
             (if length h > MAX_HISTORY_MESSAGES
              then drop (length h - MAX_HISTORY_MESSAGES) h else h)\<rparr>)"

definition fileToDataUrl :: "jsfile \<Rightarrow> exn + jsstring" where
  "fileToDataUrl file =
     (if \<not> startsWith (file_type file) (js ''image/'') then Inl (Error msg_only_images)
      else let maxSize = 4 * 1024 * 1024
           in if file_size file > maxSize then Inl (Error msg_image_too_large)
              else (case readAsDataURL file of
                      Some result \<Rightarrow> Inr result
                    | None \<Rightarrow> Inl (Error msg_image_unreadable)))"

text \<open>The \<open>change\<close> listener of \<open>imageFileInput\<close>, with its \<open>try\<close> block.\<close>

definition imageFileInput_change_try ::
  "platform \<Rightarrow> jsfile \<Rightarrow> user_page \<Rightarrow> (exn + unit) \<times> user_page" where
  "imageFileInput_change_try P file s =
     (case fileToDataUrl file of
        Inl e \<Rightarrow> (Inl e, s)
      | Inr dataUrl \<Rightarrow>
          (let s1 = s\<lparr>selectedImageDataUrl := dataUrl, selectedImageName := file_name file\<rparr>
           in case appendBotMessage P (JStr (msg_image_attached @ file_name file)) False [] s1 of
                Inl e \<Rightarrow> (Inl e, s1)
              | Inr s2 \<Rightarrow> (Inr (), s2)))"

definition imageFileInput_change :: "platform \<Rightarrow> user_page \<Rightarrow> user_page" where
  "imageFileInput_change P s =
     (case imageFileInput s of
        [] \<Rightarrow> s
      | file # _ \<Rightarrow>
          (case imageFileInput_change_try P file s of
             (Inr _, s1) \<Rightarrow> s1
           | (Inl error, s1) \<Rightarrow>
               (let s2 = s1\<lparr>selectedImageDataUrl := [], selectedImageName := []\<rparr>
                in uncaught s2
                     (appendBotMessage P (JStr (msg_image_failed @ message error)) False [] s2))))"

definition histValue :: "hist_entry \<Rightarrow> jsval" where
  "histValue e = JObj [(js ''role'', JStr (role e)), (js ''content'', content e)]"

definition chatRequest :: "jsstring \<Rightarrow> jsstring \<Rightarrow> jsstring \<Rightarrow> hist_entry list \<Rightarrow> request" where
  "chatRequest password question imageDataUrlToSend history =
     \<lparr>url = js ''/api/chat'',
      http_method = js ''POST'',
      headers = [(js ''Content-Type'', js ''application/json''),
                 (js ''X-User-Password'', password)],
      body = JSON_stringify (JObj
        [(js ''user'', JStr question),
         (js ''kb'', JObj [(js ''enabled'', JBool True),
                           (js ''query'', JStr question),
                           (js ''topK'', JNum (Fin 6))]),
         (js ''imageDataUrl'',
            if imageDataUrlToSend \<noteq> [] then JStr imageDataUrlToSend else JUndefined),
         (js ''history'', JArr (map histValue history))])\<rparr>"

text \<open>
  The \<open>try\<close> block of \<open>sendQuestion\<close>: \<open>Inl e\<close> is the error thrown, with the state at
  that point, which the \<open>catch\<close> block receives.
\<close>

definition sendQuestion_try ::
  "platform \<Rightarrow> network \<Rightarrow> jsstring \<Rightarrow> jsstring \<Rightarrow> jsstring \<Rightarrow> nat \<Rightarrow> user_page
     \<Rightarrow> (exn + unit) \<times> user_page" where
  "sendQuestion_try P net password question imageDataUrlToSend typingNode s =
     (let (p, s1) = fetch (chatRequest password question imageDataUrlToSend (conversationHistory s)) s;
          (r, s2) = await net p s1
      in case r of
           Inl e \<Rightarrow> (Inl e, s2)
         | Inr res \<Rightarrow>
             if \<not> ok res then (Inl (statusError res), s2)
             else
               (case res_json res of
                  Inl e \<Rightarrow> (Inl e, s2)
                | Inr json \<Rightarrow>
                    (let s3 = pushHistory (js ''user'') (JStr question) s2
                     in case getProp P json (js ''content'') of
                          Inl e \<Rightarrow> (Inl e, s3)
                        | Inr c \<Rightarrow>
                            (let answer = (if truthy c then c else JStr (js ''No response.''));
                                 s4 = pushHistory (js ''assistant'') answer s3;
                                 s5 = removeTyping typingNode s4
                             in case appendBotMessage P answer True question s5 of
                                  Inl e \<Rightarrow> (Inl e, s5)
                                | Inr s6 \<Rightarrow> (Inr (), s6)))))"

definition sendQuestion :: "platform \<Rightarrow> network \<Rightarrow> user_page \<Rightarrow> user_page" where
  "sendQuestion P net s =
     (let password = trim (passwordInput s);
          typedQuestion = trim (questionInput s);
          question = (if typedQuestion \<noteq> [] then typedQuestion
                      else if selectedImageDataUrl s \<noteq> [] then js ''Describe this image.'' else [])
      in if password = [] then uncaught s (appendBotMessage P (JStr msg_enter_password) False [] s)
         else if question = []
         then uncaught s (appendBotMessage P (JStr msg_enter_question) False [] s)
         else
           (let s1 = appendUserMessage question (selectedImageDataUrl s) s;
                s2 = s1\<lparr>questionInput := [], imageFileInput := []\<rparr>;
                imageDataUrlToSend = selectedImageDataUrl s2;
                s3 = s2\<lparr>selectedImageDataUrl := [], selectedImageName := []\<rparr>;
                (typingNode, s4) = appendTyping s3
            in case sendQuestion_try P net password question imageDataUrlToSend typingNode s4 of
                 (Inr _, s5) \<Rightarrow> s5
               | (Inl error, s5) \<Rightarrow>
                   (let s6 = removeTyping typingNode s5
                    in uncaught s6
                         (appendBotMessage P (JStr (js ''Failed: '' @ message error)) False [] s6))))"

text \<open>
  \<open>submitFeedback(question, badAnswer)\<close>, the click listener of a feedback button.
  \<open>prompt\<close> is what \<open>window.prompt\<close> returns if it is called (\<open>None\<close> for \<open>null\<close>).
\<close>

definition feedbackRequest :: "jsstring \<Rightarrow> jsstring \<Rightarrow> jsval \<Rightarrow> jsstring \<Rightarrow> request" where
  "feedbackRequest password question badAnswer correction =
     \<lparr>url = js ''/api/feedback'',
      http_method = js ''POST'',
      headers = [(js ''Content-Type'', js ''application/json''),
                 (js ''X-User-Password'', password)],
      body = JSON_stringify (JObj
        [(js ''question'', JStr question),
         (js ''badAnswer'', badAnswer),
         (js ''correction'', JStr (trim correction))])\<rparr>"

definition submitFeedback_try ::
  "platform \<Rightarrow> network \<Rightarrow> jsstring \<Rightarrow> jsstring \<Rightarrow> jsval \<Rightarrow> jsstring \<Rightarrow> user_page
     \<Rightarrow> (exn + unit) \<times> user_page" where
  "submitFeedback_try P net password question badAnswer correction s =
     (let (p, s1) = fetch (feedbackRequest password question badAnswer correction) s;
          (r, s2) = await net p s1
      in case r of
           Inl e \<Rightarrow> (Inl e, s2)
         | Inr res \<Rightarrow>
             if \<not> ok res then (Inl (statusError res), s2)
             else (case appendBotMessage P (JStr msg_feedback_saved) False [] s2 of
                     Inl e \<Rightarrow> (Inl e, s2)
                   | Inr s3 \<Rightarrow> (Inr (), s3)))"

definition submitFeedback ::
  "platform \<Rightarrow> network \<Rightarrow> jsstring option \<Rightarrow> jsstring \<Rightarrow> jsval \<Rightarrow> user_page \<Rightarrow> user_page" where
  "submitFeedback P net prompt question badAnswer s =
     (let password = trim (passwordInput s)
      in if password = []
         then uncaught s (appendBotMessage P (JStr msg_feedback_password) False [] s)
         else (case prompt of
                 None \<Rightarrow> s
               | Some correction \<Rightarrow>
                   if correction = [] \<or> trim correction = [] then s
                   else (case submitFeedback_try P net password question badAnswer correction s of
                           (Inr _, s1) \<Rightarrow> s1
                         | (Inl error, s1) \<Rightarrow>
                             uncaught s1
                               (appendBotMessage P (JStr (msg_feedback_failed @ message error))
                                  False [] s1))))"

text \<open>The listeners of \<open>questionInput\<close>; a \<open>keydown\<close> event has its key, \<open>isComposing\<close> and \<open>keyCode\<close>.\<close>

record key_event =
  key :: jsstring
  event_isComposing :: bool
  keyCode :: nat

definition questionInput_compositionstart :: "user_page \<Rightarrow> user_page" where
  "questionInput_compositionstart s = s\<lparr>isComposing := True\<rparr>"

definition questionInput_compositionend :: "user_page \<Rightarrow> user_page" where
  "questionInput_compositionend s = s\<lparr>isComposing := False\<rparr>"

definition questionInput_keydown :: "platform \<Rightarrow> network \<Rightarrow> key_event \<Rightarrow> user_page \<Rightarrow> user_page" where
  "questionInput_keydown P net event s =
     (if key event = js ''Enter'' \<and> \<not> isComposing s \<and> \<not> event_isComposing event
         \<and> keyCode event \<noteq> 229
      then sendQuestion P net s else s)"

subsection \<open>The earlier chat scripts\<close>

text \<open>
  Two more scripts of the repository define \<open>sendQuestion\<close> for the same page: one without
  images and history (here \<open>sendQuestion_part_000\<close>) and one with images but without
  history (\<open>sendQuestion_part_002\<close>). They run on the same page state and leave alone
  the variables they do not have.
\<close>

definition msg_typing_generating :: jsstring where
  "msg_typing_generating = [0xB2F5, 0xBCC0, 0x20, 0xC0DD, 0xC131, 0x20, 0xC911, 0x2E, 0x2E, 0x2E]"

definition appendTyping_part_000 :: "user_page \<Rightarrow> nat \<times> user_page" where
  "appendTyping_part_000 s =
     (let row = createElement s
      in (row, s\<lparr>messagesEl := messagesEl s @ [(row, TypingRow msg_typing_generating)]\<rparr>))"

definition chatRequest_part_000 :: "jsstring \<Rightarrow> jsstring \<Rightarrow> request" where
  "chatRequest_part_000 password question =
     \<lparr>url = js ''/api/chat'',
      http_method = js ''POST'',
      headers = [(js ''Content-Type'', js ''application/json''),
                 (js ''X-User-Password'', password)],
      body = JSON_stringify (JObj
        [(js ''user'', JStr question),
         (js ''kb'', JObj [(js ''enabled'', JBool True),
                           (js ''query'', JStr question),
                           (js ''topK'', JNum (Fin 6))])])\<rparr>"

definition chatRequest_part_002 :: "jsstring \<Rightarrow> jsstring \<Rightarrow> jsstring \<Rightarrow> request" where
  "chatRequest_part_002 password question imageDataUrlToSend =
     \<lparr>url = js ''/api/chat'',
      http_method = js ''POST'',
      headers = [(js ''Content-Type'', js ''application/json''),
                 (js ''X-User-Password'', password)],
      body = JSON_stringify (JObj
        [(js ''user'', JStr question),
         (js ''kb'', JObj [(js ''enabled'', JBool True),
                           (js ''query'', JStr question),
                           (js ''topK'', JNum (Fin 6))]),
         (js ''imageDataUrl'',
            if imageDataUrlToSend \<noteq> [] then JStr imageDataUrlToSend else JUndefined)])\<rparr>"

text \<open>The \<open>try\<close> block the two scripts share, up to the request they send.\<close>

definition sendQuestion_try_part_000 ::
  "platform \<Rightarrow> network \<Rightarrow> request \<Rightarrow> nat \<Rightarrow> user_page \<Rightarrow> (exn + unit) \<times> user_page" where
  "sendQuestion_try_part_000 P net req typingNode s =
     (let (p, s1) = fetch req s;
          (r, s2) = await net p s1
      in case r of
           Inl e \<Rightarrow> (Inl e, s2)
         | Inr res \<Rightarrow>
             if \<not> ok res then (Inl (statusError res), s2)
             else
               (case res_json res of
                  Inl e \<Rightarrow> (Inl e, s2)
                | Inr json \<Rightarrow>
                    (let s3 = removeTyping typingNode s2
                     in case getProp P json (js ''content'') of
                          Inl e \<Rightarrow> (Inl e, s3)
                        | Inr c \<Rightarrow>
                            (case appendBotMessage P
                                    (if truthy c then c else JStr (js ''No response.''))
                                    False [] s3 of
                               Inl e \<Rightarrow> (Inl e, s3)
                             | Inr s4 \<Rightarrow> (Inr (), s4)))))"

definition sendQuestion_part_000 :: "platform \<Rightarrow> network \<Rightarrow> user_page \<Rightarrow> user_page" where
  "sendQuestion_part_000 P net s =
     (let password = trim (passwordInput s);
          question = trim (questionInput s)
      in if password = [] then uncaught s (appendBotMessage P (JStr msg_enter_password) False [] s)
         else if question = []
         then uncaught s (appendBotMessage P (JStr msg_enter_question) False [] s)
         else
           (let s1 = appendUserMessage question [] s;
                s2 = s1\<lparr>questionInput := []\<rparr>;
                (typingNode, s3) = appendTyping_part_000 s2
            in case sendQuestion_try_part_000 P net (chatRequest_part_000 password question)
                      typingNode s3 of
                 (Inr _, s4) \<Rightarrow> s4
               | (Inl error, s4) \<Rightarrow>
                   (let s5 = removeTyping typingNode s4
                    in uncaught s5
                         (appendBotMessage P (JStr (js ''Failed: '' @ message error)) False [] s5))))"

definition sendQuestion_part_002 :: "platform \<Rightarrow> network \<Rightarrow> user_page \<Rightarrow> user_page" where
  "sendQuestion_part_002 P net s =
     (let password = trim (passwordInput s);
          typedQuestion = trim (questionInput s);
          question = (if typedQuestion \<noteq> [] then typedQuestion
                      else if selectedImageDataUrl s \<noteq> [] then js ''Describe this image.'' else [])
      in if password = [] then uncaught s (appendBotMessage P (JStr msg_enter_password) False [] s)
         else if question = []
         then uncaught s (appendBotMessage P (JStr msg_enter_question) False [] s)
         else
           (let s1 = appendUserMessage question (selectedImageDataUrl s) s;
                s2 = s1\<lparr>questionInput := [], imageFileInput := []\<rparr>;
                imageDataUrlToSend = selectedImageDataUrl s2;
                s3 = s2\<lparr>selectedImageDataUrl := [], selectedImageName := []\<rparr>;
                (typingNode, s4) = appendTyping_part_000 s3
            in case sendQuestion_try_part_000 P net
                      (chatRequest_part_002 password question imageDataUrlToSend) typingNode s4 of
                 (Inr _, s5) \<Rightarrow> s5
               | (Inl error, s5) \<Rightarrow>
                   (let s6 = removeTyping typingNode s5
                    in uncaught s6
                         (appendBotMessage P (JStr (js ''Failed: '' @ message error)) False [] s6))))"

section \<open>The administration page (admin.js)\<close>

text \<open>
  The state of the page: the input values, the files chosen in \<open>filesInput\<close>, the text of
  \<open>statusOutput\<close> and the files the browser saved through a download link. \<open>setTab\<close> only
  toggles CSS classes and is left out. The \<open>value\<close> of \<open>maxAnswerCharsInput\<close> is taken to
  hold whatever string is assigned to it.
\<close>

record admin_page = io +
  tokenInput :: jsstring
  filesInput :: "jsfile list"
  statusOutput :: jsstring
  maxAnswerCharsInput :: jsstring
  defaultPromptInput :: jsstring
  downloads :: "(jsstring \<times> 8 word list) list"

definition msg_token_refresh :: jsstring where
  "msg_token_refresh =
     js ''Admin Token'' @ [0xC744, 0x20, 0xC785, 0xB825, 0xD55C, 0x20, 0xB4A4, 0x20] @ js ''Refresh''
       @ [0xB97C, 0x20, 0xB204, 0xB974, 0xC138, 0xC694, 0x2E]"

definition msg_token_first :: jsstring where
  "msg_token_first =
     js ''Admin Token'' @ [0xC744, 0x20, 0xBA3C, 0xC800, 0x20, 0xC785, 0xB825, 0xD558, 0xC138, 0xC694, 0x2E]"

definition msg_choose_files :: jsstring where
  "msg_choose_files =
     [0xC5C5, 0xB85C, 0xB4DC, 0xD560, 0x20, 0xD30C, 0xC77C, 0xC744, 0x20, 0xC120, 0xD0DD, 0xD558, 0xC138,
      0xC694, 0x2E]"

definition msg_limit_range :: jsstring where
  "msg_limit_range =
     js ''MAX_ANSWER_CHARS'' @ [0xB294, 0x20] @ js ''0~20000 ''
       @ [0xC815, 0xC218, 0xB9CC, 0x20, 0xAC00, 0xB2A5, 0xD569, 0xB2C8, 0xB2E4, 0x2E]"

definition msg_enter_prompt :: jsstring where
  "msg_enter_prompt = js ''Prompt'' @ [0xB97C, 0x20, 0xC785, 0xB825, 0xD558, 0xC138, 0xC694, 0x2E]"

definition msg_download_done :: jsstring where
  "msg_download_done = js ''feedback.jsonl '' @ [0xB2E4, 0xC6B4, 0xB85C, 0xB4DC, 0x20, 0xC644, 0xB8CC]"

definition msg_download_failed :: jsstring where
  "msg_download_failed = [0xB2E4, 0xC6B4, 0xB85C, 0xB4DC, 0x20, 0xC2E4, 0xD328, 0x3A, 0x20]"

definition loadStatus_try :: "platform \<Rightarrow> network \<Rightarrow> jsstring \<Rightarrow> admin_page \<Rightarrow> (exn + unit) \<times> admin_page" where
  "loadStatus_try P net token s =
     (let (p, s1) = fetch \<lparr>url = js ''/api/admin/kb-status'', http_method = js ''GET'',
                           headers = [(js ''X-Admin-Token'', token)], body = NoBody\<rparr> s;
          (r, s2) = await net p s1
      in case r of
           Inl e \<Rightarrow> (Inl e, s2)
         | Inr res \<Rightarrow>
             if \<not> ok res then (Inl (statusError res), s2)
             else
               (case res_json res of
                  Inl e \<Rightarrow> (Inl e, s2)
                | Inr json \<Rightarrow>
                    (case getProp P json (js ''chunks'') of
                       Inl e \<Rightarrow> (Inl e, s2)
                     | Inr chunks \<Rightarrow>
                         (case ToString P chunks of
                            Inl e \<Rightarrow> (Inl e, s2)
                          | Inr chunksText \<Rightarrow>
                              (case getProp P json (js ''files'') of
                                 Inl e \<Rightarrow> (Inl e, s2)
                               | Inr (JArr xs) \<Rightarrow>
                                   (case Array_join P (js ''\<newline>- '') xs of
                                      Inl e \<Rightarrow> (Inl e, s2)
                                    | Inr joined \<Rightarrow>
                                        (Inr (), s2\<lparr>statusOutput :=
                                           js ''Chunks: '' @ chunksText @ js ''\<newline>Files:\<newline>- ''
                                             @ (if joined \<noteq> [] then joined
                                                else js ''(none)'')\<rparr>))
                               | Inr files \<Rightarrow>
                                   (Inl (Error (typeErrorMessage P files (js ''join''))), s2))))))"

definition loadStatus :: "platform \<Rightarrow> network \<Rightarrow> admin_page \<Rightarrow> admin_page" where
  "loadStatus P net s =
     (let token = trim (tokenInput s)
      in if token = [] then s\<lparr>statusOutput := msg_token_refresh\<rparr>
         else (case loadStatus_try P net token s of
                 (Inr _, s1) \<Rightarrow> s1
               | (Inl error, s1) \<Rightarrow> s1\<lparr>statusOutput := js ''Failed: '' @ message error\<rparr>))"

definition loadConfig :: "platform \<Rightarrow> network \<Rightarrow> admin_page \<Rightarrow> admin_page" where
  "loadConfig P net s =
     (let token = trim (tokenInput s)
      in if token = [] then s
         else
           (let (p, s1) = fetch \<lparr>url = js ''/api/admin/config'', http_method = js ''GET'',
                                 headers = [(js ''X-Admin-Token'', token)], body = NoBody\<rparr> s;
                (r, s2) = await net p s1
            in case r of
                 Inl _ \<Rightarrow> s2
               | Inr res \<Rightarrow>
                   if \<not> ok res then s2
                   else
                     (case res_json res of
                        Inl _ \<Rightarrow> s2
                      | Inr json \<Rightarrow>
                          (case getProp P json (js ''maxAnswerChars'') of
                             Inl _ \<Rightarrow> s2
                           | Inr m \<Rightarrow>
                               (case ToNumber P (if truthy m then m else JNum (Fin 0)) of
                                  Inl _ \<Rightarrow> s2
                                | Inr n \<Rightarrow>
                                    (let s3 = s2\<lparr>maxAnswerCharsInput := NumberToString P n\<rparr>
                                     in case getProp P json (js ''defaultPrompt'') of
                                          Inl _ \<Rightarrow> s3
                                        | Inr d \<Rightarrow>
                                            (case ToString P (if truthy d then d else JStr []) of
                                               Inl _ \<Rightarrow> s3
                                             | Inr prompt \<Rightarrow>
                                                 s3\<lparr>defaultPromptInput := prompt\<rparr>)))))))"

subsection \<open>Uploading files\<close>

text \<open>
  \<open>encodeURIComponent\<close>: the unreserved code units stay, every other code point is
  written as the percent-escaped octets of its UTF-8 encoding; an unpaired surrogate
  throws a URIError (\<open>None\<close>).
\<close>

definition uriUnreserved :: "16 word \<Rightarrow> bool" where
  "uriUnreserved c =
     ((0x41 \<le> c \<and> c \<le> 0x5A) \<or> (0x61 \<le> c \<and> c \<le> 0x7A) \<or> (0x30 \<le> c \<and> c \<le> 0x39)
      \<or> c \<in> set (js ''-_.!~*'' @ [0x27] @ js ''()''))"

definition hexDigit :: "nat \<Rightarrow> 16 word" where
  "hexDigit n = (if n < 10 then of_nat (48 + n) else of_nat (55 + n))"

definition percent :: "nat \<Rightarrow> jsstring" where
  "percent octet = [0x25, hexDigit (octet div 16), hexDigit (octet mod 16)]"

definition utf8 :: "nat \<Rightarrow> nat list" where
  "utf8 cp =
     (if cp < 0x80 then [cp]
      else if cp < 0x800 then [0xC0 + cp div 0x40, 0x80 + cp mod 0x40]
      else if cp < 0x10000 then [0xE0 + cp div 0x1000, 0x80 + cp div 0x40 mod 0x40, 0x80 + cp mod 0x40]
      else [0xF0 + cp div 0x40000, 0x80 + cp div 0x1000 mod 0x40, 0x80 + cp div 0x40 mod 0x40,
            0x80 + cp mod 0x40])"

fun encodeURIComponent :: "jsstring \<Rightarrow> jsstring option" where
  "encodeURIComponent [] = Some []"
| "encodeURIComponent (c # cs) =
     (if uriUnreserved c then map_option ((#) c) (encodeURIComponent cs)
      else if c < 0xD800 \<or> 0xDFFF < c then
        map_option ((@) (concat (map percent (utf8 (unat c))))) (encodeURIComponent cs)
      else if 0xDC00 \<le> c then None
      else (case cs of
              [] \<Rightarrow> None
            | d # ds \<Rightarrow>
                if 0xDC00 \<le> d \<and> d \<le> 0xDFFF then
                  map_option
                    ((@) (concat (map percent
                       (utf8 ((unat c - 0xD800) * 0x400 + (unat d - 0xDC00) + 0x10000)))))
                    (encodeURIComponent ds)
                else None))"

text \<open>\<open>btoa\<close>: base64 of a string of code units below 256; any other code unit throws.\<close>

definition base64Char :: "nat \<Rightarrow> 16 word" where
  "base64Char n =
     js ''ABCDEFGHIJKLMNOPQRSTUVWXYZabcdefghijklmnopqrstuvwxyz0123456789+/'' ! n"

fun base64 :: "nat list \<Rightarrow> jsstring" where
  "base64 [] = []"
| "base64 [a] = [base64Char (a div 4), base64Char (a mod 4 * 16), 0x3D, 0x3D]"
| "base64 [a, b] =
     [base64Char (a div 4), base64Char (a mod 4 * 16 + b div 16), base64Char (b mod 16 * 4), 0x3D]"
| "base64 (a # b # c # xs) =
     [base64Char (a div 4), base64Char (a mod 4 * 16 + b div 16),
      base64Char (b mod 16 * 4 + c div 64), base64Char (c mod 64)] @ base64 xs"

definition btoa :: "jsstring \<Rightarrow> exn + jsstring" where
  "btoa binary =
     (if list_all (\<lambda>c. c \<le> 0xFF) binary then Inr (base64 (map unat binary))
      else Inl (Error (js ''Invalid character'')))"

definition chunkSize :: nat where
  "chunkSize = 0x8000"

definition subarray :: "8 word list \<Rightarrow> nat \<Rightarrow> nat \<Rightarrow> 8 word list" where
  "subarray bytes i j = take (j - i) (drop i bytes)"

definition fromCharCode :: "8 word list \<Rightarrow> jsstring" where
  "fromCharCode sub = map ucast sub"

function fileToBase64_loop :: "8 word list \<Rightarrow> nat \<Rightarrow> jsstring \<Rightarrow> jsstring" where
  "fileToBase64_loop bytes i binary =
     (if i < length bytes
      then fileToBase64_loop bytes (i + chunkSize)
             (binary @ fromCharCode (subarray bytes i (i + chunkSize)))
      else binary)"
  by pat_completeness auto
termination
  by (relation "measure (\<lambda>(bytes, i, binary). length bytes - i)") (auto simp: chunkSize_def)

declare fileToBase64_loop.simps [simp del]

definition fileToBase64 :: "jsfile \<Rightarrow> exn + jsstring" where
  "fileToBase64 file =
     (case arrayBuffer file of
        Inl e \<Rightarrow> Inl e
      | Inr bytes \<Rightarrow> btoa (fileToBase64_loop bytes 0 []))"

definition uploadBinaryRequest :: "jsstring \<Rightarrow> jsfile \<Rightarrow> jsstring \<Rightarrow> request" where
  "uploadBinaryRequest token file encodedName =
     \<lparr>url = js ''/api/admin/upload-binary'',
      http_method = js ''POST'',
      headers = [(js ''Content-Type'', js ''application/octet-stream''),
                 (js ''X-Admin-Token'', token),
                 (js ''X-Filename'', encodedName)],
      body = FileBody file\<rparr>"

definition uploadRequest :: "jsstring \<Rightarrow> jsfile \<Rightarrow> jsstring \<Rightarrow> request" where
  "uploadRequest token file contentBase64 =
     \<lparr>url = js ''/api/admin/upload'',
      http_method = js ''POST'',
      headers = [(js ''Content-Type'', js ''application/json''),
                 (js ''X-Admin-Token'', token)],
      body = JSON_stringify (JObj [(js ''filename'', JStr (file_name file)),
                                   (js ''contentBase64'', JStr contentBase64)])\<rparr>"

text \<open>The \<open>try\<close> block of \<open>uploadSingleFile\<close>, the binary attempt.\<close>

definition uploadSingleFile_try :: "network \<Rightarrow> jsstring \<Rightarrow> jsfile \<Rightarrow> admin_page \<Rightarrow> (exn + unit) \<times> admin_page" where
  "uploadSingleFile_try net token file s =
     (case encodeURIComponent (file_name file) of
        None \<Rightarrow> (Inl (Error (js ''URI malformed'')), s)
      | Some encodedName \<Rightarrow>
          (let (p, s1) = fetch (uploadBinaryRequest token file encodedName) s;
               (r, s2) = await net p s1
           in case r of
                Inl e \<Rightarrow> (Inl e, s2)
              | Inr res \<Rightarrow> if \<not> ok res then (Inl (statusError res), s2) else (Inr (), s2)))"

definition uploadSingleFile :: "network \<Rightarrow> jsstring \<Rightarrow> jsfile \<Rightarrow> admin_page \<Rightarrow> (exn + unit) \<times> admin_page" where
  "uploadSingleFile net token file s =
     (case uploadSingleFile_try net token file s of
        (Inr u, s1) \<Rightarrow> (Inr u, s1)
      | (Inl _, s1) \<Rightarrow>
          (case fileToBase64 file of
             Inl e \<Rightarrow> (Inl e, s1)
           | Inr contentBase64 \<Rightarrow>
               (let (p, s2) = fetch (uploadRequest token file contentBase64) s1;
                    (r, s3) = await net p s2
                in case r of
                     Inl e \<Rightarrow> (Inl e, s3)
                   | Inr res \<Rightarrow>
                       if \<not> ok res then (Inl (statusError res), s3) else (Inr (), s3))))"

text \<open>The loop of \<open>uploadFiles\<close> over the chosen files, with its counters.\<close>

fun uploadFiles_loop ::
  "network \<Rightarrow> jsstring \<Rightarrow> jsfile list \<Rightarrow> nat \<times> jsstring list \<times> admin_page
     \<Rightarrow> nat \<times> jsstring list \<times> admin_page" where
  "uploadFiles_loop net token [] acc = acc"
| "uploadFiles_loop net token (file # files) (done, failures, s) =
     (case uploadSingleFile net token file s of
        (Inr _, s1) \<Rightarrow> uploadFiles_loop net token files (done + 1, failures, s1)
      | (Inl error, s1) \<Rightarrow>
          uploadFiles_loop net token files
            (done, failures @ [file_name file @ js '': '' @ message error], s1))"

definition uploadFiles :: "platform \<Rightarrow> network \<Rightarrow> admin_page \<Rightarrow> admin_page" where
  "uploadFiles P net s =
     (let token = trim (tokenInput s);
          files = filesInput s
      in if token = [] then s\<lparr>statusOutput := msg_token_first\<rparr>
         else if files = [] then s\<lparr>statusOutput := msg_choose_files\<rparr>
         else
           (let s1 = s\<lparr>statusOutput := js ''Uploading '' @ showNat (length files) @ js '' file(s)...''\<rparr>;
                (done, failures, s2) = uploadFiles_loop net token files (0, [], s1);
                s3 = s2\<lparr>filesInput := []\<rparr>;
                s4 = loadStatus P net s3
            in if failures \<noteq> []
               then s4\<lparr>statusOutput := statusOutput s4 @ js ''\<newline>\<newline>Uploaded: '' @ showNat done
                        @ js ''/'' @ showNat (length files) @ js ''\<newline>Failed:\<newline>- ''
                        @ join (js ''\<newline>- '') failures\<rparr>
               else s4))"

subsection \<open>The two settings and the feedback log\<close>

definition Number_isInteger :: "jsnumber \<Rightarrow> bool" where
  "Number_isInteger v = (case v of Fin r \<Rightarrow> of_int \<lfloor>r\<rfloor> = r | _ \<Rightarrow> False)"

text \<open>\<open>a < b\<close> on numbers; a comparison with \<open>NaN\<close> is false.\<close>

fun numLess :: "jsnumber \<Rightarrow> jsnumber \<Rightarrow> bool" where
  "numLess NaN b = False"
| "numLess a NaN = False"
| "numLess (Fin a) (Fin b) = (a < b)"
| "numLess NegInf b = (b \<noteq> NegInf)"
| "numLess a PosInf = (a \<noteq> PosInf)"
| "numLess a b = False"

definition configRequest :: "jsstring \<Rightarrow> jsval \<Rightarrow> request" where
  "configRequest token v =
     \<lparr>url = js ''/api/admin/config'',
      http_method = js ''POST'',
      headers = [(js ''Content-Type'', js ''application/json''),
                 (js ''X-Admin-Token'', token)],
      body = JSON_stringify v\<rparr>"

definition saveLimit_try :: "platform \<Rightarrow> network \<Rightarrow> jsstring \<Rightarrow> jsnumber \<Rightarrow> admin_page \<Rightarrow> (exn + unit) \<times> admin_page" where
  "saveLimit_try P net token v s =
     (let (p, s1) = fetch (configRequest token (JObj [(js ''maxAnswerChars'', JNum v)])) s;
          (r, s2) = await net p s1
      in case r of
           Inl e \<Rightarrow> (Inl e, s2)
         | Inr res \<Rightarrow>
             if \<not> ok res then (Inl (statusError res), s2)
             else
               (case res_json res of
                  Inl e \<Rightarrow> (Inl e, s2)
                | Inr json \<Rightarrow>
                    (case getProp P json (js ''maxAnswerChars'') of
                       Inl e \<Rightarrow> (Inl e, s2)
                     | Inr m \<Rightarrow>
                         (case ToString P m of
                            Inl e \<Rightarrow> (Inl e, s2)
                          | Inr shown \<Rightarrow>
                              (Inr (), s2\<lparr>statusOutput :=
                                            js ''MAX_ANSWER_CHARS updated: '' @ shown\<rparr>)))))"

definition saveLimit :: "platform \<Rightarrow> network \<Rightarrow> admin_page \<Rightarrow> admin_page" where
  "saveLimit P net s =
     (let token = trim (tokenInput s)
      in if token = [] then s\<lparr>statusOutput := msg_token_first\<rparr>
         else
           (let v = StringToNumber P
                      (if maxAnswerCharsInput s \<noteq> [] then maxAnswerCharsInput s else js ''0'')
            in if \<not> Number_isInteger v \<or> numLess v (Fin 0) \<or> numLess (Fin 20000) v
               then s\<lparr>statusOutput := msg_limit_range\<rparr>
               else (case saveLimit_try P net token v s of
                       (Inr _, s1) \<Rightarrow> s1
                     | (Inl error, s1) \<Rightarrow> s1\<lparr>statusOutput := js ''Failed: '' @ message error\<rparr>)))"

definition savePrompt_try :: "network \<Rightarrow> jsstring \<Rightarrow> jsstring \<Rightarrow> admin_page \<Rightarrow> (exn + unit) \<times> admin_page" where
  "savePrompt_try net token prompt s =
     (let (p, s1) = fetch (configRequest token (JObj [(js ''defaultPrompt'', JStr prompt)])) s;
          (r, s2) = await net p s1
      in case r of
           Inl e \<Rightarrow> (Inl e, s2)
         | Inr res \<Rightarrow>
             if \<not> ok res then (Inl (statusError res), s2)
             else (Inr (), s2\<lparr>statusOutput := js ''Default prompt updated.''\<rparr>))"

definition savePrompt :: "network \<Rightarrow> admin_page \<Rightarrow> admin_page" where
  "savePrompt net s =
     (let token = trim (tokenInput s);
          prompt = trim (defaultPromptInput s)
      in if token = [] then s\<lparr>statusOutput := msg_token_first\<rparr>
         else if prompt = [] then s\<lparr>statusOutput := msg_enter_prompt\<rparr>
         else (case savePrompt_try net token prompt s of
                 (Inr _, s1) \<Rightarrow> s1
               | (Inl error, s1) \<Rightarrow> s1\<lparr>statusOutput := js ''Failed: '' @ message error\<rparr>))"

definition downloadFeedback_try :: "network \<Rightarrow> jsstring \<Rightarrow> admin_page \<Rightarrow> (exn + unit) \<times> admin_page" where
  "downloadFeedback_try net token s =
     (let (p, s1) = fetch \<lparr>url = js ''/api/admin/feedback-download'', http_method = js ''GET'',
                           headers = [(js ''X-Admin-Token'', token)], body = NoBody\<rparr> s;
          (r, s2) = await net p s1
      in case r of
           Inl e \<Rightarrow> (Inl e, s2)
         | Inr res \<Rightarrow>
             if \<not> ok res then (Inl (statusError res), s2)
             else
               (case res_blob res of
                  Inl e \<Rightarrow> (Inl e, s2)
                | Inr b \<Rightarrow>
                    (Inr (), s2\<lparr>downloads := downloads s2 @ [(js ''feedback.jsonl'', b)],
                                 statusOutput := msg_download_done\<rparr>)))"

definition downloadFeedback :: "network \<Rightarrow> admin_page \<Rightarrow> admin_page" where
  "downloadFeedback net s =
     (let token = trim (tokenInput s)
      in if token = [] then s\<lparr>statusOutput := msg_token_first\<rparr>
         else (case downloadFeedback_try net token s of
                 (Inr _, s1) \<Rightarrow> s1
               | (Inl error, s1) \<Rightarrow> s1\<lparr>statusOutput := msg_download_failed @ message error\<rparr>))"

section \<open>Notions for the properties\<close>

text \<open>A sequence of calls \<open>pushHistory(role, content)\<close>, and the pair each call pushes.\<close>

fun pushAll :: "(jsstring \<times> jsval) list \<Rightarrow> user_page \<Rightarrow> user_page" where
  "pushAll [] s = s"
| "pushAll ((r, c) # ps) s = pushAll ps (pushHistory r c s)"

definition entry :: "jsstring \<times> jsval \<Rightarrow> hist_entry" where
  "entry p = \<lparr>role = fst p, content = snd p\<rparr>"

text \<open>
  The question \<open>sendQuestion\<close> submits: the trimmed input or, when that is empty and an
  image is attached, a fixed text. \<open>typingState\<close> is the typing row and the page at the
  moment \<open>sendQuestion\<close> enters its \<open>try\<close> block.
\<close>

definition submittedQuestion :: "user_page \<Rightarrow> jsstring" where
  "submittedQuestion s =
     (if trim (questionInput s) \<noteq> [] then trim (questionInput s)
      else if selectedImageDataUrl s \<noteq> [] then js ''Describe this image.'' else [])"

definition typingState :: "user_page \<Rightarrow> nat \<times> user_page" where
  "typingState s =
     appendTyping ((appendUserMessage (submittedQuestion s) (selectedImageDataUrl s) s)
       \<lparr>questionInput := [], imageFileInput := [], selectedImageDataUrl := [], selectedImageName := []\<rparr>)"

text \<open>The page with one more bot row, as \<open>appendBotMessage\<close> called with a string leaves it.\<close>

definition botRow :: "jsstring \<Rightarrow> user_page \<Rightarrow> user_page" where
  "botRow m s = s\<lparr>messagesEl := messagesEl s @ [(createElement s, BotRow m None)]\<rparr>"

text \<open>The number the next call of \<open>fetch\<close> gets, and a property of a JSON request body.\<close>

definition nextFetch :: "'a io_scheme \<Rightarrow> nat" where
  "nextFetch s = length (filter isStarted (trace s))"

definition bodyField :: "request \<Rightarrow> jsstring \<Rightarrow> jsval option" where
  "bodyField r k = (case body r of JsonBody (JObj ps) \<Rightarrow> map_of ps k | _ \<Rightarrow> None)"

text \<open>
  The requests and the events a handler adds to the page's trace, from the state \<open>s\<close> it
  starts in to the state \<open>s'\<close> it ends in.
\<close>

definition issued :: "'a io_scheme \<Rightarrow> 'a io_scheme \<Rightarrow> request list" where
  "issued s s' = drop (length (requests (trace s))) (requests (trace s'))"

definition newEvents :: "'a io_scheme \<Rightarrow> 'a io_scheme \<Rightarrow> event list" where
  "newEvents s s' = drop (length (trace s)) (trace s')"

text \<open>
  The binary attempt of \<open>uploadSingleFile\<close> succeeds when nothing in its \<open>try\<close> block
  throws: the file name can be encoded, \<open>fetch\<close> gives a response, and its status is OK.
\<close>

definition binaryAttemptOk :: "network \<Rightarrow> jsfile \<Rightarrow> 'a io_scheme \<Rightarrow> bool" where
  "binaryAttemptOk net file s =
     (encodeURIComponent (file_name file) \<noteq> None
      \<and> (case net (nextFetch s) of Inl e \<Rightarrow> False | Inr res \<Rightarrow> ok res))"

text \<open>
  The fallback request of \<open>uploadSingleFile\<close> is the one after the binary request, or the
  first one when the file name cannot be encoded. \<open>uploadFiles_after\<close> is the page when
  \<open>uploadFiles\<close> has gone through the first files of its list.
\<close>

definition fallbackFetch :: "jsfile \<Rightarrow> 'a io_scheme \<Rightarrow> nat" where
  "fallbackFetch file s =
     (if encodeURIComponent (file_name file) = None then nextFetch s else Suc (nextFetch s))"

definition uploadFiles_after :: "network \<Rightarrow> admin_page \<Rightarrow> jsfile list \<Rightarrow> admin_page" where
  "uploadFiles_after net s files =
     snd (snd (uploadFiles_loop net (trim (tokenInput s)) files
       (0, [], s\<lparr>statusOutput := js ''Uploading '' @ showNat (length (filesInput s))
                                   @ js '' file(s)...''\<rparr>)))"

text \<open>
  Requests awaited one at a time: every request started is settled before anything else
  happens. \<open>inFlight\<close> gives the requests started and not yet settled.
\<close>

fun awaited :: "event list \<Rightarrow> bool" where
  "awaited [] = True"
| "awaited (Started k r # Settled k' # es) = (k = k' \<and> awaited es)"
| "awaited es = False"

fun inFlightFrom :: "nat list \<Rightarrow> event list \<Rightarrow> nat list" where
  "inFlightFrom pending [] = pending"
| "inFlightFrom pending (Started k r # es) = inFlightFrom (pending @ [k]) es"
| "inFlightFrom pending (Settled k # es) = inFlightFrom (removeAll k pending) es"

definition inFlight :: "event list \<Rightarrow> nat list" where
  "inFlight es = inFlightFrom [] es"

text \<open>
  A handler that takes the page from \<open>s\<close> to \<open>s'\<close> handles its requests one at a time
  when it only adds events to the trace, each request it starts is awaited before the
  next thing happens, and so at every moment of its run at most one request is in flight.
\<close>

definition oneAtATime :: "event list \<Rightarrow> bool" where
  "oneAtATime es =
     (awaited es \<and> list_all (\<lambda>n. length (inFlight (take n es)) \<le> 1) [0..<Suc (length es)])"

definition handledOneAtATime :: "'a io_scheme \<Rightarrow> 'a io_scheme \<Rightarrow> bool" where
  "handledOneAtATime s s' =
     (take (length (trace s)) (trace s') = trace s \<and> oneAtATime (newEvents s s'))"

text \<open>The number \<open>saveLimit\<close> reads from its input.\<close>

definition enteredLimit :: "platform \<Rightarrow> admin_page \<Rightarrow> jsnumber" where
  "enteredLimit P s =
     StringToNumber P (if maxAnswerCharsInput s \<noteq> [] then maxAnswerCharsInput s else js ''0'')"

subsection \<open>Concrete inputs\<close>

text \<open>
  A platform for the examples. It converts the strings of a few decimal digits and the
  small natural numbers as ECMAScript does, which is all the examples convert, and words
  the TypeErrors of the scripts as V8 does.
\<close>

definition decimal :: "jsstring \<Rightarrow> jsnumber" where
  "decimal s =
     (if list_all (\<lambda>c. 0x30 \<le> c \<and> c \<le> 0x39) s
      then Fin (of_nat (foldl (\<lambda>n c. 10 * n + (unat c - 48)) 0 s)) else NaN)"

definition showNumber :: "jsnumber \<Rightarrow> jsstring" where
  "showNumber v =
     (case v of
        Fin r \<Rightarrow> if 0 \<le> r \<and> of_int \<lfloor>r\<rfloor> = r then showNat (nat \<lfloor>r\<rfloor>) else js ''NaN''
      | _ \<Rightarrow> js ''NaN'')"

definition examplePlatform :: platform where
  "examplePlatform =
     \<lparr>StringToNumber = decimal,
      NumberToString = showNumber,
      typeErrorMessage =
        (\<lambda>v k. if v = JNull \<or> v = JUndefined
               then js ''Cannot read properties of ''
                      @ (if v = JNull then js ''null'' else js ''undefined'')
                      @ js '' (reading '' @ [0x27] @ k @ [0x27] @ js '')''
               else if k = js ''toString'' then js ''Cannot convert object to primitive value''
               else js ''json.files.'' @ k @ js '' is not a function'')\<rparr>"

definition offline :: network where
  "offline = (\<lambda>k. Inl (Error (js ''Failed to fetch'')))"

definition answering :: "response \<Rightarrow> network" where
  "answering res = (\<lambda>k. Inr res)"

definition examplePage :: user_page where
  "examplePage =
     \<lparr>trace = [],
      passwordInput = js ''pw'',
      imageFileInput = [],
      questionInput = js '' hi '',
      messagesEl = [],
      selectedImageDataUrl = [],
      selectedImageName = [],
      conversationHistory = [],
      isComposing = False\<rparr>"

definition pngDataUrl :: jsstring where
  "pngDataUrl = js ''data:image/png;base64,AAAA''"

definition pdfFile :: jsfile where
  "pdfFile =
     \<lparr>file_name = js ''notes.pdf'',
      file_type = js ''application/pdf'',
      file_size = 1000,
      readAsDataURL = Some (js ''data:application/pdf;base64,AAAA''),
      arrayBuffer = Inr [0, 0, 0]\<rparr>"

definition nullResponse :: response where
  "nullResponse =
     \<lparr>status = 200, res_text = Inr (js ''null''), res_json = Inr JNull, res_blob = Inr []\<rparr>"

definition errorResponse :: response where
  "errorResponse =
     \<lparr>status = 500,
      res_text = Inr (js ''boom''),
      res_json = Inl (Error (js ''Unexpected token'')),
      res_blob = Inr []\<rparr>"

definition helloResponse :: response where
  "helloResponse =
     \<lparr>status = 200,
      res_text = Inr ([0x7B, 0x22] @ js ''content'' @ [0x22, 0x3A, 0x22] @ js ''hello'' @ [0x22, 0x7D]),
      res_json = Inr (JObj [(js ''content'', JStr (js ''hello''))]),
      res_blob = Inr []\<rparr>"

definition exampleAdmin :: admin_page where
  "exampleAdmin =
     \<lparr>trace = [],
      tokenInput = js ''tok'',
      filesInput = [],
      statusOutput = [],
      maxAnswerCharsInput = js ''20001'',
      defaultPromptInput = js ''Be brief.'',
      downloads = []\<rparr>"

definition textFile :: jsfile where
  "textFile =
     \<lparr>file_name = js ''a.txt'',
      file_type = js ''text/plain'',
      file_size = 3,
      readAsDataURL = Some (js ''data:text/plain;base64,YWJj''),
      arrayBuffer = Inr [0x61, 0x62, 0x63]\<rparr>"

definition unreadableFile :: jsfile where
  "unreadableFile =
     \<lparr>file_name = js ''a.txt'',
      file_type = js ''text/plain'',
      file_size = 3,
      readAsDataURL = None,
      arrayBuffer = Inl (Error (js ''The file could not be read''))\<rparr>"

definition surrogateFile :: jsfile where
  "surrogateFile = textFile\<lparr>file_name := [0xD83D] @ js ''.txt''\<rparr>"

definition limitResponse :: response where
  "limitResponse =
     \<lparr>status = 200,
      res_text = Inr ([0x7B, 0x22] @ js ''maxAnswerChars'' @ [0x22, 0x3A] @ js ''500'' @ [0x7D]),
      res_json = Inr (JObj [(js ''maxAnswerChars'', JNum (Fin 500))]),
      res_blob = Inr []\<rparr>"

definition kbStatusResponse :: response where
  "kbStatusResponse =
     \<lparr>status = 200,
      res_text = Inr ([0x7B, 0x22] @ js ''chunks'' @ [0x22, 0x3A] @ js ''3,'' @ [0x22] @ js ''files''
                      @ [0x22, 0x3A, 0x5B, 0x22] @ js ''a.txt'' @ [0x22, 0x5D, 0x7D]),
      res_json = Inr (JObj [(js ''chunks'', JNum (Fin 3)),
                            (js ''files'', JArr [JStr (js ''a.txt'')])]),
      res_blob = Inr []\<rparr>"

text \<open>A server that refuses the first request and accepts the later ones.\<close>

definition refusingFirst :: network where
  "refusingFirst = (\<lambda>k. if k = 0 then Inr errorResponse else Inr kbStatusResponse)"

definition unshowableResponse :: response where
  "unshowableResponse =
     \<lparr>status = 200,
      res_text = Inr ([0x7B, 0x22] @ js ''maxAnswerChars'' @ [0x22, 0x3A, 0x7B, 0x22] @ js ''toString''
                      @ [0x22, 0x3A] @ js ''null'' @ [0x7D, 0x7D]),
      res_json = Inr (JObj [(js ''maxAnswerChars'', JObj [(js ''toString'', JNull)])]),
      res_blob = Inr []\<rparr>"

section \<open>The bounded conversation history\<close>

lemma conversationHistory_pushHistory:
  "conversationHistory (pushHistory r c s) =
     drop (Suc (length (conversationHistory s)) - MAX_HISTORY_MESSAGES)
       (conversationHistory s @ [\<lparr>role = r, content = c\<rparr>])"
  by (simp add: pushHistory_def Let_def)

lemma conversationHistory_pushAll:
  "length (conversationHistory s) \<le> MAX_HISTORY_MESSAGES \<Longrightarrow>
   conversationHistory (pushAll ps s) =
     drop (length (conversationHistory s) + length ps - MAX_HISTORY_MESSAGES)
       (conversationHistory s @ map entry ps)"
proof (induction ps arbitrary: s)
  case Nil
  then show ?case by simp
next
  case (Cons p ps)
  obtain r c where p: "p = (r, c)" by (cases p)
  let ?h = "conversationHistory s"
  let ?d = "Suc (length ?h) - MAX_HISTORY_MESSAGES"
  let ?s' = "pushHistory r c s"
  have h': "conversationHistory ?s' = drop ?d (?h @ [entry p])"
    by (simp add: conversationHistory_pushHistory p entry_def)
  have len: "length (conversationHistory ?s') \<le> MAX_HISTORY_MESSAGES"
    using Cons.prems by (simp add: h')
  have "conversationHistory (pushAll (p # ps) s) = conversationHistory (pushAll ps ?s')"
    by (simp add: p)
  also have "\<dots> = drop (length (conversationHistory ?s') + length ps - MAX_HISTORY_MESSAGES)
                     (conversationHistory ?s' @ map entry ps)"
    by (rule Cons.IH [OF len])
  also have "conversationHistory ?s' @ map entry ps = drop ?d (?h @ map entry (p # ps))"
    using Cons.prems by (simp add: h' MAX_HISTORY_MESSAGES_def)
  also have "drop (length (conversationHistory ?s') + length ps - MAX_HISTORY_MESSAGES)
               (drop ?d (?h @ map entry (p # ps)))
           = drop (length ?h + length (p # ps) - MAX_HISTORY_MESSAGES) (?h @ map entry (p # ps))"
  proof -
    have "length (conversationHistory ?s') + length ps - MAX_HISTORY_MESSAGES + ?d
          = length ?h + length (p # ps) - MAX_HISTORY_MESSAGES"
      using Cons.prems by (simp add: h')
    then show ?thesis by (simp only: drop_drop)
  qed
  finally show ?case .
qed

text \<open>
  Claim C1. The history starts empty. After any sequence of calls of \<open>pushHistory\<close> it
  holds at most 20 pairs, and they are the most recently pushed pairs, in the order they
  were pushed: the pairs pushed, without the first \<open>n - 20\<close> of them when there are
  \<open>n > 20\<close>. A single push appends its pair and, when that makes the length exceed 20,
  removes the entries in excess from the front.
\<close>

theorem pushHistory_keeps_newest_20:
  "conversationHistory (pushAll ps (s\<lparr>conversationHistory := []\<rparr>))
     = drop (length ps - 20) (map entry ps)
   \<and> length (conversationHistory (pushAll ps (s\<lparr>conversationHistory := []\<rparr>))) \<le> 20
   \<and> conversationHistory (pushHistory r c s)
     = drop (Suc (length (conversationHistory s)) - 20) (conversationHistory s @ [entry (r, c)])"
  using conversationHistory_pushAll [of "s\<lparr>conversationHistory := []\<rparr>" ps]
    conversationHistory_pushHistory [of r c s]
  by (simp add: MAX_HISTORY_MESSAGES_def entry_def)

section \<open>What sendQuestion does\<close>

lemmas dom_defs = appendUserMessage_def appendBotMessage_def appendTyping_def removeTyping_def
  pushHistory_def appendTyping_part_000_def uncaught_def

lemmas example_defs = examplePage_def pngDataUrl_def offline_def answering_def examplePlatform_def
  trim_def isWhiteSpace_def js_def submittedQuestion_def

lemma uncaught_simps [simp]:
  "uncaught s (Inr s') = s'"
  "uncaught s (Inl e) = s"
  by (simp_all add: uncaught_def)

lemma appendBotMessage_string:
  "appendBotMessage P (JStr m) False [] s = Inr (botRow m s)"
  by (simp add: appendBotMessage_def botRow_def)

lemma requests_append: "requests (es @ fs) = requests es @ requests fs"
  by (induction es rule: requests.induct) simp_all

lemma sendQuestion_blocked_eq:
  "trim (passwordInput s) = [] \<or> submittedQuestion s = [] \<Longrightarrow>
   sendQuestion P net s =
     s\<lparr>messagesEl := messagesEl s @
        [(createElement s,
          BotRow (if trim (passwordInput s) = [] then msg_enter_password else msg_enter_question) None)]\<rparr>"
  by (auto simp add: sendQuestion_def submittedQuestion_def appendBotMessage_def uncaught_def Let_def)

lemma sendQuestion_unblocked_eq:
  assumes "trim (passwordInput s) \<noteq> []" and "submittedQuestion s \<noteq> []"
  shows "sendQuestion P net s =
     (case sendQuestion_try P net (trim (passwordInput s)) (submittedQuestion s)
             (selectedImageDataUrl s) (fst (typingState s)) (snd (typingState s)) of
        (Inr u, s5) \<Rightarrow> s5
      | (Inl error, s5) \<Rightarrow>
          botRow (js ''Failed: '' @ message error) (removeTyping (fst (typingState s)) s5))"
proof -
  have q: "(if trim (questionInput s) \<noteq> [] then trim (questionInput s)
            else if selectedImageDataUrl s \<noteq> [] then js ''Describe this image.'' else [])
           = submittedQuestion s"
    by (simp add: submittedQuestion_def)
  have sel: "selectedImageDataUrl
               ((appendUserMessage (submittedQuestion s) (selectedImageDataUrl s) s)
                  \<lparr>questionInput := [], imageFileInput := []\<rparr>) = selectedImageDataUrl s"
    by (simp add: appendUserMessage_def Let_def)
  show ?thesis
    unfolding sendQuestion_def Let_def q sel typingState_def
    using assms by (simp add: case_prod_unfold appendBotMessage_string cong: sum.case_cong)
qed

lemma typingState_frame:
  "trace (snd (typingState s)) = trace s"
  "conversationHistory (snd (typingState s)) = conversationHistory s"
  by (simp_all add: typingState_def appendTyping_def appendUserMessage_def Let_def)

lemma trace_sendQuestion_try:
  "trace (snd (sendQuestion_try P net pw q img node s)) =
     trace s @ [Started (nextFetch s) (chatRequest pw q img (conversationHistory s)),
                Settled (nextFetch s)]"
  by (simp add: sendQuestion_try_def fetch_def await_def nextFetch_def dom_defs Let_def
      split: sum.splits prod.splits)

lemma trace_sendQuestion:
  "trace (sendQuestion P net s) =
     trace s @
     (if trim (passwordInput s) = [] \<or> submittedQuestion s = [] then []
      else [Started (nextFetch s)
              (chatRequest (trim (passwordInput s)) (submittedQuestion s) (selectedImageDataUrl s)
                 (conversationHistory s)),
            Settled (nextFetch s)])"
proof (cases "trim (passwordInput s) = [] \<or> submittedQuestion s = []")
  case True
  then show ?thesis by (simp add: sendQuestion_blocked_eq)
next
  case False
  obtain r s5 where X: "sendQuestion_try P net (trim (passwordInput s)) (submittedQuestion s)
             (selectedImageDataUrl s) (fst (typingState s)) (snd (typingState s)) = (r, s5)"
    by fastforce
  have t5: "trace s5 = trace s @ [Started (nextFetch s)
              (chatRequest (trim (passwordInput s)) (submittedQuestion s) (selectedImageDataUrl s)
                 (conversationHistory s)),
            Settled (nextFetch s)]"
    using trace_sendQuestion_try [of P net "trim (passwordInput s)" "submittedQuestion s"
        "selectedImageDataUrl s" "fst (typingState s)" "snd (typingState s)"]
    by (simp add: X typingState_frame nextFetch_def)
  show ?thesis
    using False
    by (cases r) (simp_all add: sendQuestion_unblocked_eq X t5 botRow_def removeTyping_def)
qed

lemma trace_sendQuestion_try_part_000:
  "trace (snd (sendQuestion_try_part_000 P net req node s)) =
     trace s @ [Started (nextFetch s) req, Settled (nextFetch s)]"
  by (simp add: sendQuestion_try_part_000_def fetch_def await_def nextFetch_def dom_defs Let_def
      split: sum.splits prod.splits)

lemma trace_catch:
  "trace (case r of Inr u \<Rightarrow> s5
          | Inl error \<Rightarrow> botRow (f error) (removeTyping node s5))
   = trace s5"
  by (cases r) (simp_all add: botRow_def removeTyping_def)

lemma trace_botRow: "trace (botRow m s) = trace s"
  by (simp add: botRow_def)

lemma trace_sendQuestion_part_000:
  "trace (sendQuestion_part_000 P net s) =
     trace s @
     (if trim (passwordInput s) = [] \<or> trim (questionInput s) = [] then []
      else [Started (nextFetch s) (chatRequest_part_000 (trim (passwordInput s)) (trim (questionInput s))),
            Settled (nextFetch s)])"
  by (simp add: sendQuestion_part_000_def Let_def case_prod_unfold trace_catch
      trace_sendQuestion_try_part_000 appendBotMessage_string appendTyping_part_000_def
      appendUserMessage_def nextFetch_def trace_botRow cong: sum.case_cong)

lemma trace_sendQuestion_part_002:
  "trace (sendQuestion_part_002 P net s) =
     trace s @
     (if trim (passwordInput s) = [] \<or> submittedQuestion s = [] then []
      else [Started (nextFetch s)
              (chatRequest_part_002 (trim (passwordInput s)) (submittedQuestion s) (selectedImageDataUrl s)),
            Settled (nextFetch s)])"
  by (simp add: sendQuestion_part_002_def Let_def case_prod_unfold trace_catch submittedQuestion_def
      trace_sendQuestion_try_part_000 appendBotMessage_string appendTyping_part_000_def
      appendUserMessage_def nextFetch_def trace_botRow cong: sum.case_cong)

lemma sendQuestion_part_000_blocked_eq:
  "trim (passwordInput s) = [] \<or> trim (questionInput s) = [] \<Longrightarrow>
   sendQuestion_part_000 P net s =
     s\<lparr>messagesEl := messagesEl s @
        [(createElement s,
          BotRow (if trim (passwordInput s) = [] then msg_enter_password else msg_enter_question) None)]\<rparr>"
  by (auto simp add: sendQuestion_part_000_def appendBotMessage_def uncaught_def Let_def)

lemma sendQuestion_part_002_blocked_eq:
  "trim (passwordInput s) = [] \<or> submittedQuestion s = [] \<Longrightarrow>
   sendQuestion_part_002 P net s =
     s\<lparr>messagesEl := messagesEl s @
        [(createElement s,
          BotRow (if trim (passwordInput s) = [] then msg_enter_password else msg_enter_question) None)]\<rparr>"
  by (auto simp add: sendQuestion_part_002_def submittedQuestion_def appendBotMessage_def uncaught_def
      Let_def)


section \<open>The chat request\<close>

text \<open>
  Claim C5, as amended. Whenever \<open>sendQuestion\<close> sends a request, it is one request, a
  POST to \<open>/api/chat\<close> with the header \<open>X-User-Password\<close> holding the trimmed password; its
  JSON body has \<open>user\<close> equal to the submitted question and \<open>kb\<close> equal to
  \<open>{enabled: true, query: the same question, topK: 6}\<close>. The property \<open>imageDataUrl\<close> is
  in the body exactly when an image is attached. The property \<open>history\<close> is always in the
  body and holds the conversation history, an empty array as long as there is none. The
  script without images and history sends \<open>user\<close> and \<open>kb\<close> only.
\<close>

theorem sendQuestion_chat_request:
  "requests (trace (sendQuestion P net s)) =
     requests (trace s) @
     (if trim (passwordInput s) = [] \<or> submittedQuestion s = [] then []
      else [\<lparr>url = js ''/api/chat'',
             http_method = js ''POST'',
             headers = [(js ''Content-Type'', js ''application/json''),
                        (js ''X-User-Password'', trim (passwordInput s))],
             body = JsonBody (JObj
               ([(js ''user'', JStr (submittedQuestion s)),
                 (js ''kb'', JObj [(js ''enabled'', JBool True),
                                   (js ''query'', JStr (submittedQuestion s)),
                                   (js ''topK'', JNum (Fin 6))])]
                @ (if selectedImageDataUrl s = [] then []
                   else [(js ''imageDataUrl'', JStr (selectedImageDataUrl s))])
                @ [(js ''history'', jsonValue (JArr (map histValue (conversationHistory s))))]))\<rparr>])
   \<and> requests (trace (sendQuestion_part_000 P net s)) =
     requests (trace s) @
     (if trim (passwordInput s) = [] \<or> trim (questionInput s) = [] then []
      else [\<lparr>url = js ''/api/chat'',
             http_method = js ''POST'',
             headers = [(js ''Content-Type'', js ''application/json''),
                        (js ''X-User-Password'', trim (passwordInput s))],
             body = JsonBody (JObj
               [(js ''user'', JStr (trim (questionInput s))),
                (js ''kb'', JObj [(js ''enabled'', JBool True),
                                  (js ''query'', JStr (trim (questionInput s))),
                                  (js ''topK'', JNum (Fin 6))])])\<rparr>])"
proof -
  have a: "chatRequest pw q img h =
      \<lparr>url = js ''/api/chat'', http_method = js ''POST'',
       headers = [(js ''Content-Type'', js ''application/json''), (js ''X-User-Password'', pw)],
       body = JsonBody (JObj
         ([(js ''user'', JStr q),
           (js ''kb'', JObj [(js ''enabled'', JBool True), (js ''query'', JStr q),
                             (js ''topK'', JNum (Fin 6))])]
          @ (if img = [] then [] else [(js ''imageDataUrl'', JStr img)])
          @ [(js ''history'', jsonValue (JArr (map histValue h)))]))\<rparr>" for pw q img h
    by (simp add: chatRequest_def JSON_stringify_def)
  have b: "chatRequest_part_000 pw q =
      \<lparr>url = js ''/api/chat'', http_method = js ''POST'',
       headers = [(js ''Content-Type'', js ''application/json''), (js ''X-User-Password'', pw)],
       body = JsonBody (JObj
         [(js ''user'', JStr q),
          (js ''kb'', JObj [(js ''enabled'', JBool True), (js ''query'', JStr q),
                            (js ''topK'', JNum (Fin 6))])])\<rparr>" for pw q
    by (simp add: chatRequest_part_000_def JSON_stringify_def)
  show ?thesis
    by (simp add: trace_sendQuestion trace_sendQuestion_part_000 requests_append a b)
qed


text \<open>
  The claim as stated includes \<open>history\<close> only when there is one. On a page with no
  history yet, the request carries \<open>history\<close> all the same, as an empty array.
\<close>

theorem sendQuestion_empty_history_counterexample:
  "conversationHistory examplePage = []
   \<and> requests (trace (sendQuestion examplePlatform offline examplePage))
       = [chatRequest (js ''pw'') (js ''hi'') [] []]
   \<and> bodyField (chatRequest (js ''pw'') (js ''hi'') [] []) (js ''history'') = Some (JArr [])"
proof -
  have "requests (trace (sendQuestion examplePlatform offline examplePage))
       = [chatRequest (js ''pw'') (js ''hi'') [] []]"
    by (simp add: trace_sendQuestion) (simp add: example_defs)
  moreover have "bodyField (chatRequest (js ''pw'') (js ''hi'') [] []) (js ''history'') = Some (JArr [])"
    by (simp add: bodyField_def chatRequest_def JSON_stringify_def js_def)
  moreover have "conversationHistory examplePage = []"
    by (simp add: examplePage_def)
  ultimately show ?thesis by simp
qed

section \<open>Blocked submissions\<close>

text \<open>
  Claim C3, as amended. If the trimmed password is empty, or the trimmed question is
  empty and no image is attached, \<open>sendQuestion\<close> blocks the submission: it sends no
  request and changes nothing but \<open>messagesEl\<close>, to which it appends one bot row with the
  prompt for the password or for the question. The script without images blocks whenever
  the trimmed password or the trimmed question is empty.
\<close>

theorem sendQuestion_blocked:
  "(trim (passwordInput s) = [] \<or> (trim (questionInput s) = [] \<and> selectedImageDataUrl s = []) \<longrightarrow>
      sendQuestion P net s =
        s\<lparr>messagesEl := messagesEl s @
           [(createElement s,
             BotRow (if trim (passwordInput s) = [] then msg_enter_password else msg_enter_question)
               None)]\<rparr>
      \<and> requests (trace (sendQuestion P net s)) = requests (trace s)
      \<and> sendQuestion_part_002 P net s = sendQuestion P net s)
   \<and> (trim (passwordInput s) = [] \<or> trim (questionInput s) = [] \<longrightarrow>
      sendQuestion_part_000 P net s =
        s\<lparr>messagesEl := messagesEl s @
           [(createElement s,
             BotRow (if trim (passwordInput s) = [] then msg_enter_password else msg_enter_question)
               None)]\<rparr>
      \<and> requests (trace (sendQuestion_part_000 P net s)) = requests (trace s))"
proof -
  have "trim (passwordInput s) = [] \<or> submittedQuestion s = []"
    if "trim (passwordInput s) = [] \<or> (trim (questionInput s) = [] \<and> selectedImageDataUrl s = [])"
    using that by (auto simp add: submittedQuestion_def)
  then show ?thesis
    by (simp add: sendQuestion_blocked_eq sendQuestion_part_002_blocked_eq
        sendQuestion_part_000_blocked_eq)
qed

text \<open>A page with a password and a blank question, no image attached: the prompt for the question.\<close>

theorem sendQuestion_blocked_witness:
  "(trim (passwordInput (examplePage\<lparr>questionInput := js ''  ''\<rparr>)) = []
     \<or> (trim (questionInput (examplePage\<lparr>questionInput := js ''  ''\<rparr>)) = []
        \<and> selectedImageDataUrl (examplePage\<lparr>questionInput := js ''  ''\<rparr>) = []))
   \<and> sendQuestion examplePlatform offline (examplePage\<lparr>questionInput := js ''  ''\<rparr>)
       = examplePage\<lparr>questionInput := js ''  '', messagesEl := [(1, BotRow msg_enter_question None)]\<rparr>
   \<and> sendQuestion_part_000 examplePlatform offline (examplePage\<lparr>questionInput := js ''  ''\<rparr>)
       = examplePage\<lparr>questionInput := js ''  '', messagesEl := [(1, BotRow msg_enter_question None)]\<rparr>"
  using sendQuestion_blocked [of "examplePage\<lparr>questionInput := js ''  ''\<rparr>" examplePlatform offline]
  by (simp add: example_defs createElement_def)

text \<open>
  The claim as stated fails when an image is attached: the trimmed question is empty, yet
  a request is sent and the inputs are cleared.
\<close>

theorem sendQuestion_empty_question_counterexample:
  "(trim (passwordInput (examplePage\<lparr>questionInput := js ''  '', selectedImageDataUrl := pngDataUrl\<rparr>)) = []
     \<or> trim (questionInput (examplePage\<lparr>questionInput := js ''  '', selectedImageDataUrl := pngDataUrl\<rparr>)) = [])
   \<and> requests (trace (sendQuestion examplePlatform offline
         (examplePage\<lparr>questionInput := js ''  '', selectedImageDataUrl := pngDataUrl\<rparr>)))
       = [chatRequest (js ''pw'') (js ''Describe this image.'') pngDataUrl []]
   \<and> questionInput (sendQuestion examplePlatform offline
         (examplePage\<lparr>questionInput := js ''  '', selectedImageDataUrl := pngDataUrl\<rparr>)) = []
   \<and> selectedImageDataUrl (sendQuestion examplePlatform offline
         (examplePage\<lparr>questionInput := js ''  '', selectedImageDataUrl := pngDataUrl\<rparr>)) = []"
proof -
  let ?c = "examplePage\<lparr>questionInput := js ''  '', selectedImageDataUrl := pngDataUrl\<rparr>"
  have pw: "trim (passwordInput ?c) = js ''pw''" and q: "trim (questionInput ?c) = []"
    and sq: "submittedQuestion ?c = js ''Describe this image.''"
    by (simp_all add: example_defs)
  have r: "requests (trace (sendQuestion examplePlatform offline ?c))
           = [chatRequest (js ''pw'') (js ''Describe this image.'') pngDataUrl []]"
    by (simp add: trace_sendQuestion pw sq) (simp add: example_defs)
  have nz: "trim (passwordInput ?c) \<noteq> []" "submittedQuestion ?c \<noteq> []"
    by (simp_all add: example_defs)
  have f: "questionInput (sendQuestion examplePlatform offline ?c) = []
         \<and> selectedImageDataUrl (sendQuestion examplePlatform offline ?c) = []"
    unfolding sendQuestion_unblocked_eq [OF nz]
    by (simp add: sendQuestion_try_def fetch_def await_def typingState_def dom_defs Let_def
        offline_def botRow_def)
  show ?thesis using q r f by simp
qed


section \<open>A question that is only an image\<close>

lemma bodyField_chatRequest:
  "bodyField (chatRequest pw q img h) (js ''user'') = Some (JStr q)"
  "bodyField (chatRequest pw q img h) (js ''kb'') =
     Some (JObj [(js ''enabled'', JBool True), (js ''query'', JStr q), (js ''topK'', JNum (Fin 6))])"
  "bodyField (chatRequest pw q img h) (js ''imageDataUrl'') = (if img = [] then None else Some (JStr img))"
  "url (chatRequest pw q img h) = js ''/api/chat''"
  by (simp_all add: bodyField_def chatRequest_def JSON_stringify_def js_def)

lemma bodyField_chatRequest_part_002:
  "bodyField (chatRequest_part_002 pw q img) (js ''user'') = Some (JStr q)"
  "bodyField (chatRequest_part_002 pw q img) (js ''kb'') =
     Some (JObj [(js ''enabled'', JBool True), (js ''query'', JStr q), (js ''topK'', JNum (Fin 6))])"
  "bodyField (chatRequest_part_002 pw q img) (js ''imageDataUrl'') = (if img = [] then None else Some (JStr img))"
  "url (chatRequest_part_002 pw q img) = js ''/api/chat''"
  by (simp_all add: bodyField_def chatRequest_part_002_def JSON_stringify_def js_def)

text \<open>
  Claim C9, as amended. When the trimmed password is not empty, the trimmed question is
  empty and an image is attached, \<open>sendQuestion\<close> does not block: it sends one chat request
  whose \<open>user\<close> field and \<open>kb\<close> query are both the fixed text "Describe this image.", and
  which carries the image. So does the script with images and without history.
\<close>

theorem sendQuestion_image_only:
  "trim (passwordInput s) \<noteq> [] \<and> trim (questionInput s) = [] \<and> selectedImageDataUrl s \<noteq> [] \<longrightarrow>
     (\<exists>r. requests (trace (sendQuestion P net s)) = requests (trace s) @ [r]
          \<and> url r = js ''/api/chat''
          \<and> bodyField r (js ''user'') = Some (JStr (js ''Describe this image.''))
          \<and> bodyField r (js ''kb'') =
              Some (JObj [(js ''enabled'', JBool True),
                          (js ''query'', JStr (js ''Describe this image.'')),
                          (js ''topK'', JNum (Fin 6))])
          \<and> bodyField r (js ''imageDataUrl'') = Some (JStr (selectedImageDataUrl s)))
     \<and> (\<exists>r. requests (trace (sendQuestion_part_002 P net s)) = requests (trace s) @ [r]
          \<and> url r = js ''/api/chat''
          \<and> bodyField r (js ''user'') = Some (JStr (js ''Describe this image.''))
          \<and> bodyField r (js ''kb'') =
              Some (JObj [(js ''enabled'', JBool True),
                          (js ''query'', JStr (js ''Describe this image.'')),
                          (js ''topK'', JNum (Fin 6))])
          \<and> bodyField r (js ''imageDataUrl'') = Some (JStr (selectedImageDataUrl s)))"
proof (intro impI, elim conjE)
  assume pw: "trim (passwordInput s) \<noteq> []" and q: "trim (questionInput s) = []"
    and img: "selectedImageDataUrl s \<noteq> []"
  have sq: "submittedQuestion s = js ''Describe this image.''"
    using q img by (simp add: submittedQuestion_def)
  have ne: "js ''Describe this image.'' \<noteq> []" by (simp add: js_def)
  show "(\<exists>r. requests (trace (sendQuestion P net s)) = requests (trace s) @ [r]
          \<and> url r = js ''/api/chat''
          \<and> bodyField r (js ''user'') = Some (JStr (js ''Describe this image.''))
          \<and> bodyField r (js ''kb'') =
              Some (JObj [(js ''enabled'', JBool True),
                          (js ''query'', JStr (js ''Describe this image.'')),
                          (js ''topK'', JNum (Fin 6))])
          \<and> bodyField r (js ''imageDataUrl'') = Some (JStr (selectedImageDataUrl s)))
     \<and> (\<exists>r. requests (trace (sendQuestion_part_002 P net s)) = requests (trace s) @ [r]
          \<and> url r = js ''/api/chat''
          \<and> bodyField r (js ''user'') = Some (JStr (js ''Describe this image.''))
          \<and> bodyField r (js ''kb'') =
              Some (JObj [(js ''enabled'', JBool True),
                          (js ''query'', JStr (js ''Describe this image.'')),
                          (js ''topK'', JNum (Fin 6))])
          \<and> bodyField r (js ''imageDataUrl'') = Some (JStr (selectedImageDataUrl s)))"
    using pw img ne
    by (simp add: trace_sendQuestion trace_sendQuestion_part_002 requests_append sq
        bodyField_chatRequest bodyField_chatRequest_part_002)
qed

text \<open>A page with the password "pw", a blank question and an attached image.\<close>

theorem sendQuestion_image_only_witness:
  "trim (passwordInput (examplePage\<lparr>questionInput := js ''  '', selectedImageDataUrl := pngDataUrl\<rparr>)) = js ''pw''
   \<and> trim (questionInput (examplePage\<lparr>questionInput := js ''  '', selectedImageDataUrl := pngDataUrl\<rparr>)) = []
   \<and> (\<exists>r. requests (trace (sendQuestion examplePlatform offline
               (examplePage\<lparr>questionInput := js ''  '', selectedImageDataUrl := pngDataUrl\<rparr>))) = [r]
          \<and> bodyField r (js ''user'') = Some (JStr (js ''Describe this image.''))
          \<and> bodyField r (js ''imageDataUrl'') = Some (JStr pngDataUrl))"
proof -
  let ?c = "examplePage\<lparr>questionInput := js ''  '', selectedImageDataUrl := pngDataUrl\<rparr>"
  have pw: "trim (passwordInput ?c) = js ''pw''" and q: "trim (questionInput ?c) = []"
    and img: "selectedImageDataUrl ?c = pngDataUrl" and t: "requests (trace ?c) = []"
    by (simp_all add: example_defs)
  have ne: "js ''pw'' \<noteq> []" "pngDataUrl \<noteq> []"
    by (simp_all add: js_def pngDataUrl_def)
  from sendQuestion_image_only [of ?c examplePlatform offline]
  have "\<exists>r. requests (trace (sendQuestion examplePlatform offline ?c)) = [r]
          \<and> bodyField r (js ''user'') = Some (JStr (js ''Describe this image.''))
          \<and> bodyField r (js ''imageDataUrl'') = Some (JStr pngDataUrl)"
    unfolding pw q img t using ne by auto
  with pw q show ?thesis by simp
qed

text \<open>
  Without the condition on the password the claim fails: with a blank password the
  submission is blocked by the password prompt, although the question is empty and an
  image is attached.
\<close>

theorem sendQuestion_image_without_password_counterexample:
  "trim (questionInput (examplePage\<lparr>passwordInput := js '' '', questionInput := [],
                                    selectedImageDataUrl := pngDataUrl\<rparr>)) = []
   \<and> selectedImageDataUrl (examplePage\<lparr>passwordInput := js '' '', questionInput := [],
                                    selectedImageDataUrl := pngDataUrl\<rparr>) = pngDataUrl
   \<and> pngDataUrl \<noteq> []
   \<and> sendQuestion examplePlatform offline
        (examplePage\<lparr>passwordInput := js '' '', questionInput := [], selectedImageDataUrl := pngDataUrl\<rparr>)
      = examplePage\<lparr>passwordInput := js '' '', questionInput := [], selectedImageDataUrl := pngDataUrl,
                     messagesEl := [(1, BotRow msg_enter_password None)]\<rparr>
   \<and> requests (trace (sendQuestion examplePlatform offline
        (examplePage\<lparr>passwordInput := js '' '', questionInput := [],
                      selectedImageDataUrl := pngDataUrl\<rparr>))) = []"
proof -
  let ?c = "examplePage\<lparr>passwordInput := js '' '', questionInput := [], selectedImageDataUrl := pngDataUrl\<rparr>"
  have pw: "trim (passwordInput ?c) = []" by (simp add: example_defs)
  note b = sendQuestion_blocked_eq [of ?c examplePlatform offline, OF disjI1 [OF pw]]
  show ?thesis
    unfolding b by (simp add: example_defs createElement_def)
qed


section \<open>Attaching an image\<close>

lemma fileToDataUrl_Inl:
  "(\<exists>e. fileToDataUrl f = Inl e) \<longleftrightarrow>
     (\<not> startsWith (file_type f) (js ''image/'') \<or> 4 * 1024 * 1024 < file_size f
      \<or> readAsDataURL f = None)"
  by (auto simp add: fileToDataUrl_def Let_def split: option.splits)

lemma imageFileInput_change_error:
  assumes "imageFileInput s = f # fs" and "fileToDataUrl f = Inl e"
  shows "imageFileInput_change P s =
           s\<lparr>selectedImageDataUrl := [], selectedImageName := [],
             messagesEl := messagesEl s @ [(createElement s, BotRow (msg_image_failed @ message e) None)]\<rparr>"
  using assms
  by (simp add: imageFileInput_change_def imageFileInput_change_try_def appendBotMessage_def
      uncaught_def createElement_def Let_def)

text \<open>
  Claim C10. \<open>fileToDataUrl\<close> throws exactly when the type of the file does not start
  with "image/", or its size exceeds \<open>4 * 1024 * 1024\<close> bytes, or reading it fails. When
  it throws for the chosen file, the \<open>change\<close> listener sets \<open>selectedImageDataUrl\<close> and
  \<open>selectedImageName\<close> to the empty string, and a request that \<open>sendQuestion\<close> sends next
  has no \<open>imageDataUrl\<close>.
\<close>

theorem fileToDataUrl_errors:
  "((\<exists>e. fileToDataUrl f = Inl e) \<longleftrightarrow>
      (\<not> startsWith (file_type f) (js ''image/'') \<or> 4 * 1024 * 1024 < file_size f
       \<or> readAsDataURL f = None))
   \<and> (imageFileInput s = f # fs \<and> fileToDataUrl f = Inl e \<longrightarrow>
        selectedImageDataUrl (imageFileInput_change P s) = []
        \<and> selectedImageName (imageFileInput_change P s) = []
        \<and> (\<forall>r \<in> set (drop (length (requests (trace s)))
                          (requests (trace (sendQuestion P net (imageFileInput_change P s))))).
              bodyField r (js ''imageDataUrl'') = None))"
proof (intro conjI impI)
  show "(\<exists>e. fileToDataUrl f = Inl e) \<longleftrightarrow>
      (\<not> startsWith (file_type f) (js ''image/'') \<or> 4 * 1024 * 1024 < file_size f
       \<or> readAsDataURL f = None)"
    by (rule fileToDataUrl_Inl)
next
  assume a: "imageFileInput s = f # fs \<and> fileToDataUrl f = Inl e"
  let ?s' = "imageFileInput_change P s"
  have eq: "?s' = s\<lparr>selectedImageDataUrl := [], selectedImageName := [],
             messagesEl := messagesEl s @ [(createElement s, BotRow (msg_image_failed @ message e) None)]\<rparr>"
    using a by (simp add: imageFileInput_change_error)
  show "selectedImageDataUrl ?s' = []" and "selectedImageName ?s' = []"
    by (simp_all add: eq)
  have "trace ?s' = trace s" and "selectedImageDataUrl ?s' = []"
    by (simp_all add: eq)
  then show "\<forall>r \<in> set (drop (length (requests (trace s)))
                          (requests (trace (sendQuestion P net ?s')))).
              bodyField r (js ''imageDataUrl'') = None"
    by (simp add: trace_sendQuestion requests_append bodyField_chatRequest)
qed

text \<open>
  A PDF chosen while an image was attached: \<open>fileToDataUrl\<close> throws, the image is detached
  and the question sent next carries none.
\<close>

theorem fileToDataUrl_errors_witness:
  "fileToDataUrl pdfFile = Inl (Error msg_only_images)
   \<and> selectedImageDataUrl (imageFileInput_change examplePlatform
        (examplePage\<lparr>imageFileInput := [pdfFile], selectedImageDataUrl := pngDataUrl\<rparr>)) = []
   \<and> selectedImageName (imageFileInput_change examplePlatform
        (examplePage\<lparr>imageFileInput := [pdfFile], selectedImageDataUrl := pngDataUrl\<rparr>)) = []
   \<and> map (\<lambda>r. bodyField r (js ''imageDataUrl''))
        (requests (trace (sendQuestion examplePlatform offline
          (imageFileInput_change examplePlatform
            (examplePage\<lparr>imageFileInput := [pdfFile], selectedImageDataUrl := pngDataUrl\<rparr>)))))
      = [None]"
proof -
  let ?c = "examplePage\<lparr>imageFileInput := [pdfFile], selectedImageDataUrl := pngDataUrl\<rparr>"
  let ?s' = "imageFileInput_change examplePlatform ?c"
  have f: "fileToDataUrl pdfFile = Inl (Error msg_only_images)"
    by (simp add: fileToDataUrl_def pdfFile_def startsWith_def js_def)
  have i: "imageFileInput ?c = pdfFile # []" and t: "requests (trace ?c) = []"
    by (simp_all add: examplePage_def)
  from fileToDataUrl_errors [of pdfFile ?c "[]" "Error msg_only_images" examplePlatform offline] f i
  have r: "selectedImageDataUrl ?s' = []" "selectedImageName ?s' = []"
    and b: "\<forall>r \<in> set (requests (trace (sendQuestion examplePlatform offline ?s'))).
              bodyField r (js ''imageDataUrl'') = None"
    unfolding t by simp_all
  have eq: "?s' = ?c\<lparr>selectedImageDataUrl := [], selectedImageName := [],
             messagesEl := messagesEl ?c @ [(createElement ?c, BotRow (msg_image_failed @ message (Error msg_only_images)) None)]\<rparr>"
    using i f by (rule imageFileInput_change_error)
  have n: "length (requests (trace (sendQuestion examplePlatform offline ?s'))) = 1"
    unfolding eq by (simp add: trace_sendQuestion) (simp add: example_defs)
  then obtain x where x: "requests (trace (sendQuestion examplePlatform offline ?s')) = [x]"
    by (cases "requests (trace (sendQuestion examplePlatform offline ?s'))") auto
  show ?thesis using f r b by (simp add: x)
qed


section \<open>The history and the outcome of a chat request\<close>

lemma two_pushes:
  "conversationHistory (pushHistory r2 c2 (pushHistory r1 c1 s)) =
     drop (length (conversationHistory s) + 2 - 20)
       (conversationHistory s @ [\<lparr>role = r1, content = c1\<rparr>, \<lparr>role = r2, content = c2\<rparr>])"
proof -
  let ?h = "conversationHistory s"
  let ?d = "Suc (length ?h) - 20"
  have h1: "conversationHistory (pushHistory r1 c1 s) = drop ?d (?h @ [\<lparr>role = r1, content = c1\<rparr>])"
    by (simp add: conversationHistory_pushHistory MAX_HISTORY_MESSAGES_def)
  have "conversationHistory (pushHistory r2 c2 (pushHistory r1 c1 s))
        = drop (Suc (length (drop ?d (?h @ [\<lparr>role = r1, content = c1\<rparr>]))) - 20)
            (drop ?d (?h @ [\<lparr>role = r1, content = c1\<rparr>]) @ [\<lparr>role = r2, content = c2\<rparr>])"
    by (simp only: conversationHistory_pushHistory [of r2 c2] h1 MAX_HISTORY_MESSAGES_def)
  also have "drop ?d (?h @ [\<lparr>role = r1, content = c1\<rparr>]) @ [\<lparr>role = r2, content = c2\<rparr>]
        = drop ?d (?h @ [\<lparr>role = r1, content = c1\<rparr>, \<lparr>role = r2, content = c2\<rparr>])"
    by simp
  also have "drop (Suc (length (drop ?d (?h @ [\<lparr>role = r1, content = c1\<rparr>]))) - 20)
               (drop ?d (?h @ [\<lparr>role = r1, content = c1\<rparr>, \<lparr>role = r2, content = c2\<rparr>]))
        = drop (length ?h + 2 - 20) (?h @ [\<lparr>role = r1, content = c1\<rparr>, \<lparr>role = r2, content = c2\<rparr>])"
  proof -
    have "Suc (length (drop ?d (?h @ [\<lparr>role = r1, content = c1\<rparr>]))) - 20 + ?d = length ?h + 2 - 20"
      by simp
    then show ?thesis by (simp only: drop_drop)
  qed
  finally show ?thesis .
qed

lemma conversationHistory_catch:
  "conversationHistory (case r of Inr u \<Rightarrow> s5
          | Inl error \<Rightarrow> botRow (f error) (removeTyping node s5))
   = conversationHistory s5"
  by (cases r) (simp_all add: botRow_def removeTyping_def)

text \<open>The history after the try block, for each way the request can end.\<close>

lemma conversationHistory_sendQuestion_try:
  "conversationHistory (snd (sendQuestion_try P net pw q img node s)) =
     (case net (nextFetch s) of
        Inl e \<Rightarrow> conversationHistory s
      | Inr res \<Rightarrow>
          if \<not> ok res then conversationHistory s
          else (case res_json res of
                  Inl e \<Rightarrow> conversationHistory s
                | Inr j \<Rightarrow>
                    (case getProp P j (js ''content'') of
                       Inl e \<Rightarrow> conversationHistory (pushHistory (js ''user'') (JStr q) s)
                     | Inr c \<Rightarrow>
                         conversationHistory
                           (pushHistory (js ''assistant'')
                              (if truthy c then c else JStr (js ''No response.''))
                              (pushHistory (js ''user'') (JStr q) s)))))"
  by (simp add: sendQuestion_try_def fetch_def await_def nextFetch_def dom_defs Let_def
      split: sum.splits prod.splits)

lemma conversationHistory_sendQuestion:
  assumes "trim (passwordInput s) \<noteq> []" and "submittedQuestion s \<noteq> []"
  shows "conversationHistory (sendQuestion P net s) =
     (case net (nextFetch s) of
        Inl e \<Rightarrow> conversationHistory s
      | Inr res \<Rightarrow>
          if \<not> ok res then conversationHistory s
          else (case res_json res of
                  Inl e \<Rightarrow> conversationHistory s
                | Inr j \<Rightarrow>
                    (case getProp P j (js ''content'') of
                       Inl e \<Rightarrow> conversationHistory (pushHistory (js ''user'') (JStr (submittedQuestion s)) s)
                     | Inr c \<Rightarrow>
                         conversationHistory
                           (pushHistory (js ''assistant'')
                              (if truthy c then c else JStr (js ''No response.''))
                              (pushHistory (js ''user'') (JStr (submittedQuestion s)) s)))))"
proof -
  have n: "nextFetch (snd (typingState s)) = nextFetch s"
    by (simp add: nextFetch_def typingState_frame)
  have p: "conversationHistory (pushHistory r c (snd (typingState s))) = conversationHistory (pushHistory r c s)" for r c
    by (simp add: conversationHistory_pushHistory typingState_frame)
  have p2: "conversationHistory (pushHistory r2 c2 (pushHistory r c (snd (typingState s))))
            = conversationHistory (pushHistory r2 c2 (pushHistory r c s))" for r c r2 c2
    by (simp add: two_pushes typingState_frame)
  show ?thesis
    unfolding sendQuestion_unblocked_eq [OF assms] case_prod_unfold conversationHistory_catch
      conversationHistory_sendQuestion_try n
    by (simp add: p p2 typingState_frame split: sum.splits)
qed

lemma getProp_Inr:
  "j \<noteq> JNull \<Longrightarrow> j \<noteq> JUndefined \<Longrightarrow> \<exists>c. getProp P j k = Inr c"
  by (cases j) simp_all

text \<open>
  What \<open>sendQuestion\<close> does to the history. It is left unchanged when the submission is
  blocked and when \<open>fetch\<close> throws, the response is not OK, or its body cannot be parsed
  as JSON. When the response is OK and its JSON body is not \<open>null\<close>, one user entry (the
  submitted question) followed by one assistant entry (the \<open>content\<close> of the body, or
  "No response.") is pushed with \<open>pushHistory\<close>: they are the last two entries, and of the
  older ones those beyond the newest 20 are dropped.
\<close>

lemma sendQuestion_history:
  "(trim (passwordInput s) = [] \<or> submittedQuestion s = [] \<longrightarrow>
      conversationHistory (sendQuestion P net s) = conversationHistory s)
   \<and> (net (nextFetch s) = Inl e
        \<or> (net (nextFetch s) = Inr res \<and> (\<not> ok res \<or> res_json res = Inl e)) \<longrightarrow>
      conversationHistory (sendQuestion P net s) = conversationHistory s)
   \<and> (trim (passwordInput s) \<noteq> [] \<and> submittedQuestion s \<noteq> []
        \<and> net (nextFetch s) = Inr res \<and> ok res \<and> res_json res = Inr j
        \<and> j \<noteq> JNull \<and> j \<noteq> JUndefined \<longrightarrow>
      (\<exists>c. getProp P j (js ''content'') = Inr c
         \<and> conversationHistory (sendQuestion P net s) =
             drop (length (conversationHistory s) + 2 - 20)
               (conversationHistory s @
                [\<lparr>role = js ''user'', content = JStr (submittedQuestion s)\<rparr>,
                 \<lparr>role = js ''assistant'',
                  content = (if truthy c then c else JStr (js ''No response.''))\<rparr>])))"
proof (intro conjI impI)
  assume "trim (passwordInput s) = [] \<or> submittedQuestion s = []"
  then show "conversationHistory (sendQuestion P net s) = conversationHistory s"
    by (simp add: sendQuestion_blocked_eq)
next
  assume f: "net (nextFetch s) = Inl e
        \<or> (net (nextFetch s) = Inr res \<and> (\<not> ok res \<or> res_json res = Inl e))"
  show "conversationHistory (sendQuestion P net s) = conversationHistory s"
  proof (cases "trim (passwordInput s) = [] \<or> submittedQuestion s = []")
    case True
    then show ?thesis by (simp add: sendQuestion_blocked_eq)
  next
    case False
    then show ?thesis
      using f by (auto simp add: conversationHistory_sendQuestion)
  qed
next
  assume a: "trim (passwordInput s) \<noteq> [] \<and> submittedQuestion s \<noteq> []
        \<and> net (nextFetch s) = Inr res \<and> ok res \<and> res_json res = Inr j
        \<and> j \<noteq> JNull \<and> j \<noteq> JUndefined"
  then obtain c where c: "getProp P j (js ''content'') = Inr c"
    using getProp_Inr by blast
  have "conversationHistory (sendQuestion P net s) =
             drop (length (conversationHistory s) + 2 - 20)
               (conversationHistory s @
                [\<lparr>role = js ''user'', content = JStr (submittedQuestion s)\<rparr>,
                 \<lparr>role = js ''assistant'',
                  content = (if truthy c then c else JStr (js ''No response.''))\<rparr>])"
    using a by (simp add: conversationHistory_sendQuestion c two_pushes)
  with c show "\<exists>c. getProp P j (js ''content'') = Inr c
         \<and> conversationHistory (sendQuestion P net s) =
             drop (length (conversationHistory s) + 2 - 20)
               (conversationHistory s @
                [\<lparr>role = js ''user'', content = JStr (submittedQuestion s)\<rparr>,
                 \<lparr>role = js ''assistant'',
                  content = (if truthy c then c else JStr (js ''No response.''))\<rparr>])"
    by blast
qed

text \<open>A request that fails for want of a network, and one that is answered with "hello".\<close>

lemma sendQuestion_history_example:
  "offline (nextFetch examplePage) = Inl (Error (js ''Failed to fetch''))
   \<and> conversationHistory (sendQuestion examplePlatform offline examplePage) = []
   \<and> answering helloResponse (nextFetch examplePage) = Inr helloResponse
   \<and> ok helloResponse
   \<and> conversationHistory (sendQuestion examplePlatform (answering helloResponse) examplePage) =
       [\<lparr>role = js ''user'', content = JStr (js ''hi'')\<rparr>,
        \<lparr>role = js ''assistant'', content = JStr (js ''hello'')\<rparr>]"
proof -
  have pw: "trim (passwordInput examplePage) \<noteq> []" and q: "submittedQuestion examplePage = js ''hi''"
    and h: "conversationHistory examplePage = []"
    by (simp_all add: example_defs)
  have q0: "submittedQuestion examplePage \<noteq> []"
    by (simp add: q js_def)
  have r: "ok helloResponse" "res_json helloResponse = Inr (JObj [(js ''content'', JStr (js ''hello''))])"
    by (simp_all add: helloResponse_def ok_def)
  have g: "getProp examplePlatform (JObj [(js ''content'', JStr (js ''hello''))]) (js ''content'')
           = Inr (JStr (js ''hello''))"
    by simp
  from sendQuestion_history [of examplePage examplePlatform offline "Error (js ''Failed to fetch'')"]
  have 1: "conversationHistory (sendQuestion examplePlatform offline examplePage) = []"
    by (simp add: offline_def h)
  from sendQuestion_history [of examplePage examplePlatform "answering helloResponse" _ helloResponse
      "JObj [(js ''content'', JStr (js ''hello''))]"] pw q0 r
  have 2: "conversationHistory (sendQuestion examplePlatform (answering helloResponse) examplePage) =
       [\<lparr>role = js ''user'', content = JStr (js ''hi'')\<rparr>,
        \<lparr>role = js ''assistant'', content = JStr (js ''hello'')\<rparr>]"
    by (simp add: answering_def h q g js_def)
  show ?thesis using 1 2 r by (simp add: offline_def answering_def)
qed

text \<open>
  Claim C8. If a chat request fails (\<open>fetch\<close> throws, the response is not OK, or the body
  cannot be parsed as JSON), the conversation history is left unchanged; the history grows,
  by exactly one user entry followed by one assistant entry, only when the request
  succeeds. The code breaks this for an OK response whose JSON body is \<open>null\<close>:
  \<open>pushHistory("user", question)\<close> runs before \<open>json.content\<close> is read, and reading it
  throws. The page then shows a failure, and the history has grown by the user entry
  alone, with no assistant entry after it.
\<close>

theorem sendQuestion_null_body_orphan_entry:
  "answering nullResponse (nextFetch examplePage) = Inr nullResponse
   \<and> ok nullResponse
   \<and> res_json nullResponse = Inr JNull
   \<and> conversationHistory examplePage = []
   \<and> conversationHistory (sendQuestion examplePlatform (answering nullResponse) examplePage) =
       [\<lparr>role = js ''user'', content = JStr (js ''hi'')\<rparr>]
   \<and> map snd (messagesEl (sendQuestion examplePlatform (answering nullResponse) examplePage)) =
       [UserRow (js ''hi'') None,
        BotRow (js ''Failed: Cannot read properties of null (reading '' @ [0x27] @ js ''content''
                  @ [0x27] @ js '')'') None]"
proof -
  have pw: "trim (passwordInput examplePage) \<noteq> []" and q: "submittedQuestion examplePage = js ''hi''"
    and h: "conversationHistory examplePage = []"
    by (simp_all add: example_defs)
  have q0: "submittedQuestion examplePage \<noteq> []"
    by (simp add: q js_def)
  have r: "ok nullResponse" "res_json nullResponse = Inr JNull"
    by (simp_all add: nullResponse_def ok_def)
  have 1: "conversationHistory (sendQuestion examplePlatform (answering nullResponse) examplePage) =
       [\<lparr>role = js ''user'', content = JStr (js ''hi'')\<rparr>]"
    by (simp add: conversationHistory_sendQuestion [OF pw q0] answering_def r q
        conversationHistory_pushHistory h MAX_HISTORY_MESSAGES_def)
  have 2: "map snd (messagesEl (sendQuestion examplePlatform (answering nullResponse) examplePage)) =
       [UserRow (js ''hi'') None,
        BotRow (js ''Failed: Cannot read properties of null (reading '' @ [0x27] @ js ''content''
                  @ [0x27] @ js '')'') None]"
    unfolding sendQuestion_unblocked_eq [OF pw q0]
    by (simp add: sendQuestion_try_def fetch_def await_def typingState_def dom_defs Let_def
        answering_def r q createElement_def botRow_def) (simp add: example_defs)
  show ?thesis using 1 2 r h by (simp add: answering_def)
qed


section \<open>Uploading a file: the binary attempt and the fallback\<close>

lemma ucast_byte_le: "(ucast (b :: 8 word) :: 16 word) \<le> 0xFF"
proof -
  have "unat b < 256"
    using unsigned_less [of b, where ?'a = nat] by simp
  moreover from this have "unat (ucast b :: 16 word) = unat b"
    by (simp add: unsigned_ucast_eq take_bit_nat_eq_self)
  ultimately show ?thesis
    by (simp add: word_le_nat_alt)
qed

lemma fileToBase64_loop_bytes:
  "list_all (\<lambda>c. c \<le> 0xFF) binary \<Longrightarrow>
   list_all (\<lambda>c. c \<le> 0xFF) (fileToBase64_loop bytes i binary)"
proof (induction bytes i binary rule: fileToBase64_loop.induct)
  case (1 bytes i binary)
  show ?case
  proof (cases "i < length bytes")
    case True
    have "list_all (\<lambda>c. c \<le> 0xFF) (binary @ fromCharCode (subarray bytes i (i + chunkSize)))"
      using "1.prems" ucast_byte_le by (auto simp add: fromCharCode_def list_all_iff)
    from "1.IH" [OF True this] True show ?thesis
      by (subst fileToBase64_loop.simps) simp
  next
    case False
    with "1.prems" show ?thesis
      by (subst fileToBase64_loop.simps) simp
  qed
qed

lemma fileToBase64_Inl:
  "(\<exists>e. fileToBase64 file = Inl e) \<longleftrightarrow> (\<exists>e. arrayBuffer file = Inl e)"
proof (cases "arrayBuffer file")
  case (Inl e)
  then show ?thesis by (simp add: fileToBase64_def)
next
  case (Inr bytes)
  have "list_all (\<lambda>c. c \<le> 0xFF) (fileToBase64_loop bytes 0 [])"
    by (rule fileToBase64_loop_bytes) simp
  with Inr show ?thesis by (simp add: fileToBase64_def btoa_def)
qed

lemma trace_uploadSingleFile_try:
  "trace (snd (uploadSingleFile_try net token file s)) =
     trace s @ (case encodeURIComponent (file_name file) of
                  None \<Rightarrow> []
                | Some n \<Rightarrow> [Started (nextFetch s) (uploadBinaryRequest token file n),
                             Settled (nextFetch s)])"
  by (simp add: uploadSingleFile_try_def fetch_def await_def nextFetch_def Let_def
      split: option.splits sum.splits)

lemma fst_uploadSingleFile_try:
  "(\<exists>u. fst (uploadSingleFile_try net token file s) = Inr u) \<longleftrightarrow> binaryAttemptOk net file s"
  by (simp add: uploadSingleFile_try_def fetch_def await_def nextFetch_def Let_def binaryAttemptOk_def
      split: option.splits sum.splits)

lemma trace_uploadSingleFile:
  "trace (snd (uploadSingleFile net token file s)) =
     trace (snd (uploadSingleFile_try net token file s)) @
     (if binaryAttemptOk net file s then []
      else (case fileToBase64 file of
              Inl e \<Rightarrow> []
            | Inr c \<Rightarrow>
                [Started (nextFetch (snd (uploadSingleFile_try net token file s)))
                   (uploadRequest token file c),
                 Settled (nextFetch (snd (uploadSingleFile_try net token file s)))]))"
proof -
  obtain r s1 where X: "uploadSingleFile_try net token file s = (r, s1)"
    by fastforce
  have b: "binaryAttemptOk net file s \<longleftrightarrow> (\<exists>u. r = Inr u)"
    using fst_uploadSingleFile_try [of net token "file" s] by (simp add: X)
  show ?thesis
    by (cases r)
      (simp_all add: uploadSingleFile_def X b fetch_def await_def nextFetch_def Let_def
        split: sum.splits)
qed

lemma issued_append: "trace s' = trace s @ es \<Longrightarrow> issued s s' = requests es"
  by (simp add: issued_def requests_append)

text \<open>
  Claim C2, as amended. \<open>uploadSingleFile\<close> attempts the raw binary upload first: unless
  the file name cannot be URI-encoded, its first request is POST
  \<open>/api/admin/upload-binary\<close>. The fallback request, POST \<open>/api/admin/upload\<close>, follows
  exactly when the binary attempt fails (the encoding or \<open>fetch\<close> throws, or the status is
  not OK) and the bytes of the file can be read for the base64 encoding. When the binary
  attempt succeeds, that is when its \<open>try\<close> block returns, there is no fallback request.
  No other request is issued.
\<close>

theorem uploadSingleFile_requests:
  "map (\<lambda>r. (http_method r, url r)) (issued s (snd (uploadSingleFile net token file s))) =
     (if encodeURIComponent (file_name file) = None then []
      else [(js ''POST'', js ''/api/admin/upload-binary'')])
     @ (if binaryAttemptOk net file s \<or> (\<exists>e. arrayBuffer file = Inl e) then []
        else [(js ''POST'', js ''/api/admin/upload'')])
   \<and> ((\<exists>u. fst (uploadSingleFile_try net token file s) = Inr u) \<longleftrightarrow> binaryAttemptOk net file s)"
proof -
  let ?t = "snd (uploadSingleFile_try net token file s)"
  let ?first = "case encodeURIComponent (file_name file) of
                  None \<Rightarrow> []
                | Some n \<Rightarrow> [Started (nextFetch s) (uploadBinaryRequest token file n),
                             Settled (nextFetch s)]"
  let ?second = "if binaryAttemptOk net file s then []
      else (case fileToBase64 file of
              Inl e \<Rightarrow> []
            | Inr c \<Rightarrow> [Started (nextFetch ?t) (uploadRequest token file c), Settled (nextFetch ?t)])"
  have "trace (snd (uploadSingleFile net token file s)) = trace s @ (?first @ ?second)"
    by (simp add: trace_uploadSingleFile trace_uploadSingleFile_try)
  then have i: "issued s (snd (uploadSingleFile net token file s)) = requests ?first @ requests ?second"
    by (simp add: issued_append requests_append)
  have 1: "map (\<lambda>r. (http_method r, url r)) (requests ?first) =
     (if encodeURIComponent (file_name file) = None then []
      else [(js ''POST'', js ''/api/admin/upload-binary'')])"
    by (simp add: uploadBinaryRequest_def split: option.splits)
  have 2: "map (\<lambda>r. (http_method r, url r)) (requests ?second) =
     (if binaryAttemptOk net file s \<or> (\<exists>e. arrayBuffer file = Inl e) then []
        else [(js ''POST'', js ''/api/admin/upload'')])"
    using fileToBase64_Inl [of "file"]
    by (cases "fileToBase64 file") (auto simp add: uploadRequest_def)
  have "map (\<lambda>r. (http_method r, url r)) (issued s (snd (uploadSingleFile net token file s))) =
     (if encodeURIComponent (file_name file) = None then []
      else [(js ''POST'', js ''/api/admin/upload-binary'')])
     @ (if binaryAttemptOk net file s \<or> (\<exists>e. arrayBuffer file = Inl e) then []
        else [(js ''POST'', js ''/api/admin/upload'')])"
    unfolding i map_append 1 2 ..
  then show ?thesis
    using fst_uploadSingleFile_try [of net token "file" s] by blast
qed

text \<open>
  The claim as stated fails for a file that cannot be read: \<open>fetch\<close> throws in the binary
  attempt, \<open>fileToBase64\<close> throws before the fallback request is built, and the only
  request is the binary one. It also fails for a file name with an unpaired surrogate:
  \<open>encodeURIComponent\<close> throws, and the only request is the fallback.
\<close>

theorem uploadSingleFile_fallback_counterexample:
  "fst (uploadSingleFile_try offline (js ''tok'') unreadableFile exampleAdmin)
     = Inl (Error (js ''Failed to fetch''))
   \<and> map url
        (issued exampleAdmin (snd (uploadSingleFile offline (js ''tok'') unreadableFile exampleAdmin)))
     = [js ''/api/admin/upload-binary'']
   \<and> fst (uploadSingleFile offline (js ''tok'') unreadableFile exampleAdmin)
     = Inl (Error (js ''The file could not be read''))
   \<and> encodeURIComponent (file_name surrogateFile) = None
   \<and> map url
        (issued exampleAdmin (snd (uploadSingleFile offline (js ''tok'') surrogateFile exampleAdmin)))
     = [js ''/api/admin/upload'']"
proof -
  have e: "encodeURIComponent (file_name unreadableFile) = Some (js ''a.txt'')"
    by (simp add: unreadableFile_def js_def uriUnreserved_def)
  have t: "uploadSingleFile_try offline (js ''tok'') unreadableFile exampleAdmin =
      (Inl (Error (js ''Failed to fetch'')),
       exampleAdmin\<lparr>trace := [Started 0 (uploadBinaryRequest (js ''tok'') unreadableFile (js ''a.txt'')),
                              Settled 0]\<rparr>)"
    by (simp add: uploadSingleFile_try_def e fetch_def await_def offline_def exampleAdmin_def)
  have b: "fileToBase64 unreadableFile = Inl (Error (js ''The file could not be read''))"
    by (simp add: fileToBase64_def unreadableFile_def)
  have u: "uploadSingleFile offline (js ''tok'') unreadableFile exampleAdmin =
      (Inl (Error (js ''The file could not be read'')),
       exampleAdmin\<lparr>trace := [Started 0 (uploadBinaryRequest (js ''tok'') unreadableFile (js ''a.txt'')),
                              Settled 0]\<rparr>)"
    by (simp add: uploadSingleFile_def t b)
  have 1: "map url
        (issued exampleAdmin (snd (uploadSingleFile offline (js ''tok'') unreadableFile exampleAdmin)))
     = [js ''/api/admin/upload-binary'']"
    by (simp add: u issued_def uploadBinaryRequest_def) (simp add: exampleAdmin_def)
  have n: "encodeURIComponent (file_name surrogateFile) = None"
    by (simp add: surrogateFile_def textFile_def js_def uriUnreserved_def)
  have nb: "\<not> binaryAttemptOk offline surrogateFile exampleAdmin"
    by (simp add: binaryAttemptOk_def n)
  have "\<not> (\<exists>e. arrayBuffer surrogateFile = Inl e)"
    by (simp add: surrogateFile_def textFile_def)
  then obtain c where c: "fileToBase64 surrogateFile = Inr c"
    using fileToBase64_Inl [of surrogateFile] by (cases "fileToBase64 surrogateFile") auto
  have "trace (snd (uploadSingleFile offline (js ''tok'') surrogateFile exampleAdmin)) =
      trace exampleAdmin @ [Started (nextFetch exampleAdmin) (uploadRequest (js ''tok'') surrogateFile c),
                            Settled (nextFetch exampleAdmin)]"
    by (simp add: trace_uploadSingleFile trace_uploadSingleFile_try n nb c nextFetch_def)
  then have 2: "map url
        (issued exampleAdmin (snd (uploadSingleFile offline (js ''tok'') surrogateFile exampleAdmin)))
     = [js ''/api/admin/upload'']"
    by (simp add: issued_append uploadRequest_def)
  show ?thesis using t u 1 n 2 by simp
qed


section \<open>What the administration forms check before a request\<close>

lemma trace_saveLimit_try:
  "trace (snd (saveLimit_try P net token v s)) =
     trace s @ [Started (nextFetch s) (configRequest token (JObj [(js ''maxAnswerChars'', JNum v)])),
                Settled (nextFetch s)]"
  by (simp add: saveLimit_try_def fetch_def await_def nextFetch_def Let_def
      split: sum.splits prod.splits)

lemma limit_accepted:
  "(\<not> (\<not> Number_isInteger v \<or> numLess v (Fin 0) \<or> numLess (Fin 20000) v))
     \<longleftrightarrow> (\<exists>n\<le>20000. v = Fin (of_nat n))"
proof (cases v)
  case (Fin r)
  show ?thesis
  proof
    assume "\<not> (\<not> Number_isInteger v \<or> numLess v (Fin 0) \<or> numLess (Fin 20000) v)"
    then have i: "of_int \<lfloor>r\<rfloor> = r" and l: "0 \<le> r" and u: "r \<le> 20000"
      by (simp_all add: Fin Number_isInteger_def)
    from l have f0: "0 \<le> \<lfloor>r\<rfloor>" by simp
    from u have f1: "\<lfloor>r\<rfloor> \<le> 20000" by (simp add: floor_le_iff)
    have "r = of_nat (nat \<lfloor>r\<rfloor>)"
      using i f0 by (metis of_int_of_nat_eq of_nat_nat)
    moreover have "nat \<lfloor>r\<rfloor> \<le> 20000" using f1 by linarith
    ultimately show "\<exists>n\<le>20000. v = Fin (of_nat n)"
      using Fin by blast
  next
    assume "\<exists>n\<le>20000. v = Fin (of_nat n)"
    then obtain n :: nat where n: "n \<le> 20000" "r = of_nat n" using Fin by auto
    then show "\<not> (\<not> Number_isInteger v \<or> numLess v (Fin 0) \<or> numLess (Fin 20000) v)"
      by (simp add: Fin Number_isInteger_def)
  qed
qed (simp_all add: Number_isInteger_def)

lemma trace_status_catch:
  "trace (case r of Inr u \<Rightarrow> (s1 :: admin_page)
          | Inl error \<Rightarrow> s1\<lparr>statusOutput := f error\<rparr>) = trace s1"
  by (cases r) simp_all

lemma trace_saveLimit:
  "trace (saveLimit P net s) =
     trace s @
     (if trim (tokenInput s) \<noteq> [] \<and> (\<exists>n\<le>20000. enteredLimit P s = Fin (of_nat n))
      then [Started (nextFetch s)
              (configRequest (trim (tokenInput s))
                 (JObj [(js ''maxAnswerChars'', JNum (enteredLimit P s))])),
            Settled (nextFetch s)]
      else [])"
proof (cases "\<exists>n\<le>20000. enteredLimit P s = Fin (of_nat n)")
  case True
  then have "\<not> (\<not> Number_isInteger (enteredLimit P s) \<or> numLess (enteredLimit P s) (Fin 0)
               \<or> numLess (Fin 20000) (enteredLimit P s))"
    by (simp only: limit_accepted)
  with True show ?thesis
    unfolding saveLimit_def Let_def enteredLimit_def [symmetric]
    by (simp add: case_prod_unfold trace_status_catch trace_saveLimit_try)
next
  case False
  then have "\<not> Number_isInteger (enteredLimit P s) \<or> numLess (enteredLimit P s) (Fin 0)
               \<or> numLess (Fin 20000) (enteredLimit P s)"
    using limit_accepted [of "enteredLimit P s"] by blast
  with False show ?thesis
    unfolding saveLimit_def Let_def enteredLimit_def [symmetric]
    by (simp add: case_prod_unfold)
qed

lemma trace_savePrompt:
  "trace (savePrompt net s) =
     trace s @
     (if trim (tokenInput s) \<noteq> [] \<and> trim (defaultPromptInput s) \<noteq> []
      then [Started (nextFetch s)
              (configRequest (trim (tokenInput s))
                 (JObj [(js ''defaultPrompt'', JStr (trim (defaultPromptInput s)))])),
            Settled (nextFetch s)]
      else [])"
  by (simp add: savePrompt_def savePrompt_try_def Let_def case_prod_unfold trace_status_catch
      fetch_def await_def nextFetch_def split: sum.splits)

lemma statusOutput_saveLimit_ok:
  assumes "trim (tokenInput s) \<noteq> []" and "\<exists>n\<le>20000. enteredLimit P s = Fin (of_nat n)"
    and "net (nextFetch s) = Inr res" and "ok res" and "res_json res = Inr j"
    and "getProp P j (js ''maxAnswerChars'') = Inr m"
  shows "statusOutput (saveLimit P net s) =
           (case ToString P m of
                  Inl e \<Rightarrow> js ''Failed: '' @ message e
                | Inr shown \<Rightarrow> js ''MAX_ANSWER_CHARS updated: '' @ shown)"
proof -
  have "\<not> (\<not> Number_isInteger (enteredLimit P s) \<or> numLess (enteredLimit P s) (Fin 0)
               \<or> numLess (Fin 20000) (enteredLimit P s))"
    using assms(2) by (simp only: limit_accepted)
  then show ?thesis
    unfolding saveLimit_def Let_def enteredLimit_def [symmetric]
    using assms(1,3-6)
    by (simp add: saveLimit_try_def fetch_def await_def nextFetch_def Let_def split: sum.splits)
qed

text \<open>
  Claim C6, as amended. With a non-empty token, \<open>saveLimit\<close> sends its request exactly
  when the value entered converts to an integer from 0 to 20000; any other value is
  rejected with a message and nothing is sent. \<open>savePrompt\<close> sends its request exactly when
  the trimmed token and the trimmed prompt are not empty. Of the response nothing but the
  status is checked: whatever JSON value other than \<open>null\<close> an OK response to \<open>saveLimit\<close>
  carries, its \<open>maxAnswerChars\<close> is converted to a string and shown as the new limit; when
  the conversion throws (the value is an object with a property \<open>toString\<close>, or an array
  that holds one), the error is shown as a failure.
\<close>

theorem saveLimit_request:
  "issued s (saveLimit P net s) =
     (if trim (tokenInput s) \<noteq> [] \<and> (\<exists>n\<le>20000. enteredLimit P s = Fin (of_nat n))
      then [\<lparr>url = js ''/api/admin/config'',
             http_method = js ''POST'',
             headers = [(js ''Content-Type'', js ''application/json''),
                        (js ''X-Admin-Token'', trim (tokenInput s))],
             body = JsonBody (JObj [(js ''maxAnswerChars'', JNum (enteredLimit P s))])\<rparr>]
      else [])
   \<and> (trim (tokenInput s) \<noteq> [] \<and> \<not> (\<exists>n\<le>20000. enteredLimit P s = Fin (of_nat n)) \<longrightarrow>
        saveLimit P net s = s\<lparr>statusOutput := msg_limit_range\<rparr>)
   \<and> (trim (tokenInput s) \<noteq> [] \<and> (\<exists>n\<le>20000. enteredLimit P s = Fin (of_nat n))
        \<and> net (nextFetch s) = Inr res \<and> ok res \<and> res_json res = Inr j
        \<and> j \<noteq> JNull \<and> j \<noteq> JUndefined \<longrightarrow>
        (\<exists>m. getProp P j (js ''maxAnswerChars'') = Inr m
           \<and> statusOutput (saveLimit P net s) =
               (case ToString P m of
                  Inl e \<Rightarrow> js ''Failed: '' @ message e
                | Inr shown \<Rightarrow> js ''MAX_ANSWER_CHARS updated: '' @ shown)))
   \<and> issued s (savePrompt net s) =
     (if trim (tokenInput s) \<noteq> [] \<and> trim (defaultPromptInput s) \<noteq> []
      then [\<lparr>url = js ''/api/admin/config'',
             http_method = js ''POST'',
             headers = [(js ''Content-Type'', js ''application/json''),
                        (js ''X-Admin-Token'', trim (tokenInput s))],
             body = JsonBody (JObj [(js ''defaultPrompt'', JStr (trim (defaultPromptInput s)))])\<rparr>]
      else [])"
proof (intro conjI impI)
  show "issued s (saveLimit P net s) =
     (if trim (tokenInput s) \<noteq> [] \<and> (\<exists>n\<le>20000. enteredLimit P s = Fin (of_nat n))
      then [\<lparr>url = js ''/api/admin/config'',
             http_method = js ''POST'',
             headers = [(js ''Content-Type'', js ''application/json''),
                        (js ''X-Admin-Token'', trim (tokenInput s))],
             body = JsonBody (JObj [(js ''maxAnswerChars'', JNum (enteredLimit P s))])\<rparr>]
      else [])"
    by (auto simp add: issued_append [OF trace_saveLimit] configRequest_def JSON_stringify_def)
next
  assume a: "trim (tokenInput s) \<noteq> [] \<and> \<not> (\<exists>n\<le>20000. enteredLimit P s = Fin (of_nat n))"
  then have "\<not> Number_isInteger (enteredLimit P s) \<or> numLess (enteredLimit P s) (Fin 0)
               \<or> numLess (Fin 20000) (enteredLimit P s)"
    using limit_accepted [of "enteredLimit P s"] by blast
  with a show "saveLimit P net s = s\<lparr>statusOutput := msg_limit_range\<rparr>"
    unfolding saveLimit_def Let_def enteredLimit_def [symmetric] by simp
next
  assume a: "trim (tokenInput s) \<noteq> [] \<and> (\<exists>n\<le>20000. enteredLimit P s = Fin (of_nat n))
        \<and> net (nextFetch s) = Inr res \<and> ok res \<and> res_json res = Inr j
        \<and> j \<noteq> JNull \<and> j \<noteq> JUndefined"
  then obtain m where m: "getProp P j (js ''maxAnswerChars'') = Inr m"
    using getProp_Inr by blast
  with a have "statusOutput (saveLimit P net s) =
               (case ToString P m of
                  Inl e \<Rightarrow> js ''Failed: '' @ message e
                | Inr shown \<Rightarrow> js ''MAX_ANSWER_CHARS updated: '' @ shown)"
    by (simp add: statusOutput_saveLimit_ok)
  with m show "\<exists>m. getProp P j (js ''maxAnswerChars'') = Inr m
           \<and> statusOutput (saveLimit P net s) =
               (case ToString P m of
                  Inl e \<Rightarrow> js ''Failed: '' @ message e
                | Inr shown \<Rightarrow> js ''MAX_ANSWER_CHARS updated: '' @ shown)"
    by blast
next
  show "issued s (savePrompt net s) =
     (if trim (tokenInput s) \<noteq> [] \<and> trim (defaultPromptInput s) \<noteq> []
      then [\<lparr>url = js ''/api/admin/config'',
             http_method = js ''POST'',
             headers = [(js ''Content-Type'', js ''application/json''),
                        (js ''X-Admin-Token'', trim (tokenInput s))],
             body = JsonBody (JObj [(js ''defaultPrompt'', JStr (trim (defaultPromptInput s)))])\<rparr>]
      else [])"
    by (simp add: issued_append [OF trace_savePrompt] configRequest_def JSON_stringify_def)
qed

lemma enteredLimit_examples:
  "enteredLimit examplePlatform exampleAdmin = Fin 20001"
  "enteredLimit examplePlatform (exampleAdmin\<lparr>maxAnswerCharsInput := js ''500''\<rparr>) = Fin 500"
  by (simp_all add: enteredLimit_def examplePlatform_def exampleAdmin_def decimal_def js_def)

text \<open>
  The value 20001 is rejected; the value 500 is sent and the answer shown, or the failure
  when the answer's \<open>maxAnswerChars\<close> is \<open>{"toString": null}\<close>.
\<close>

theorem saveLimit_request_witness:
  "trim (tokenInput exampleAdmin) = js ''tok''
   \<and> enteredLimit examplePlatform exampleAdmin = Fin 20001
   \<and> saveLimit examplePlatform (answering limitResponse) exampleAdmin
        = exampleAdmin\<lparr>statusOutput := msg_limit_range\<rparr>
   \<and> enteredLimit examplePlatform (exampleAdmin\<lparr>maxAnswerCharsInput := js ''500''\<rparr>) = Fin 500
   \<and> map url (issued (exampleAdmin\<lparr>maxAnswerCharsInput := js ''500''\<rparr>)
        (saveLimit examplePlatform (answering limitResponse)
           (exampleAdmin\<lparr>maxAnswerCharsInput := js ''500''\<rparr>))) = [js ''/api/admin/config'']
   \<and> statusOutput (saveLimit examplePlatform (answering limitResponse)
        (exampleAdmin\<lparr>maxAnswerCharsInput := js ''500''\<rparr>)) = js ''MAX_ANSWER_CHARS updated: 500''
   \<and> statusOutput (saveLimit examplePlatform (answering unshowableResponse)
        (exampleAdmin\<lparr>maxAnswerCharsInput := js ''500''\<rparr>))
       = js ''Failed: Cannot convert object to primitive value''"
proof -
  let ?a = "exampleAdmin\<lparr>maxAnswerCharsInput := js ''500''\<rparr>"
  let ?j = "JObj [(js ''maxAnswerChars'', JNum (Fin 500))]"
  let ?u = "JObj [(js ''maxAnswerChars'', JObj [(js ''toString'', JNull)])]"
  have t: "trim (tokenInput exampleAdmin) = js ''tok''" "trim (tokenInput ?a) = js ''tok''"
    by (simp_all add: exampleAdmin_def trim_def isWhiteSpace_def js_def)
  have tn: "js ''tok'' \<noteq> []" by (simp add: js_def)
  have big: "\<not> (\<exists>n\<le>20000. Fin 20001 = Fin (of_nat n))"
  proof
    assume "\<exists>n\<le>20000. Fin 20001 = Fin (of_nat n)"
    then obtain n :: nat where "n \<le> 20000" and "(20001 :: rat) = of_nat n" by auto
    then have "(of_nat 20001 :: rat) = of_nat n" by simp
    then have "n = 20001" by (simp only: of_nat_eq_iff)
    with \<open>n \<le> 20000\<close> show False by simp
  qed
  have small: "\<exists>n\<le>20000. Fin 500 = Fin (of_nat n)"
    by (rule exI [of _ 500]) simp
  have r: "ok limitResponse" "res_json limitResponse = Inr ?j"
    "answering limitResponse (nextFetch ?a) = Inr limitResponse"
    by (simp_all add: limitResponse_def ok_def answering_def)
  have ru: "ok unshowableResponse" "res_json unshowableResponse = Inr ?u"
    "answering unshowableResponse (nextFetch ?a) = Inr unshowableResponse"
    by (simp_all add: unshowableResponse_def ok_def answering_def)
  have g: "getProp examplePlatform ?j (js ''maxAnswerChars'') = Inr (JNum (Fin 500))"
    by simp
  have gu: "getProp examplePlatform ?u (js ''maxAnswerChars'') = Inr (JObj [(js ''toString'', JNull)])"
    by simp
  have sh: "ToString examplePlatform (JNum (Fin 500)) = Inr (js ''500'')"
    by (simp add: examplePlatform_def showNumber_def showNat.simps js_def)
  have shu: "ToString examplePlatform (JObj [(js ''toString'', JNull)])
             = Inl (Error (js ''Cannot convert object to primitive value''))"
    by (simp add: examplePlatform_def)
  note th1 = saveLimit_request [of exampleAdmin examplePlatform "answering limitResponse"]
  note th2 = saveLimit_request [of ?a examplePlatform "answering limitResponse" limitResponse ?j]
  note th3 = saveLimit_request [of ?a examplePlatform "answering unshowableResponse"
      unshowableResponse ?u]
  have 1: "saveLimit examplePlatform (answering limitResponse) exampleAdmin
        = exampleAdmin\<lparr>statusOutput := msg_limit_range\<rparr>"
    using th1 big tn by (simp add: t enteredLimit_examples)
  have 2: "map url (issued ?a (saveLimit examplePlatform (answering limitResponse) ?a))
           = [js ''/api/admin/config'']"
    using th2 small tn by (simp add: t enteredLimit_examples)
  have tn2: "trim (tokenInput ?a) \<noteq> []" unfolding t by (rule tn)
  have small2: "\<exists>n\<le>20000. enteredLimit examplePlatform ?a = Fin (of_nat n)"
    unfolding enteredLimit_examples by (rule small)
  have nn: "?j \<noteq> JNull" "?j \<noteq> JUndefined" "?u \<noteq> JNull" "?u \<noteq> JUndefined"
    by simp_all
  from th2 tn2 small2 r nn
  have "\<exists>m. getProp examplePlatform ?j (js ''maxAnswerChars'') = Inr m
           \<and> statusOutput (saveLimit examplePlatform (answering limitResponse) ?a)
               = (case ToString examplePlatform m of
                    Inl e \<Rightarrow> js ''Failed: '' @ message e
                  | Inr shown \<Rightarrow> js ''MAX_ANSWER_CHARS updated: '' @ shown)"
    by blast
  then have "statusOutput (saveLimit examplePlatform (answering limitResponse) ?a)
               = (case ToString examplePlatform (JNum (Fin 500)) of
                    Inl e \<Rightarrow> js ''Failed: '' @ message e
                  | Inr shown \<Rightarrow> js ''MAX_ANSWER_CHARS updated: '' @ shown)"
    by (simp only: g) blast
  then have 3: "statusOutput (saveLimit examplePlatform (answering limitResponse) ?a)
           = js ''MAX_ANSWER_CHARS updated: 500''"
    by (simp only: sh) (simp add: js_def)
  from th3 tn2 small2 ru nn
  have "\<exists>m. getProp examplePlatform ?u (js ''maxAnswerChars'') = Inr m
           \<and> statusOutput (saveLimit examplePlatform (answering unshowableResponse) ?a)
               = (case ToString examplePlatform m of
                    Inl e \<Rightarrow> js ''Failed: '' @ message e
                  | Inr shown \<Rightarrow> js ''MAX_ANSWER_CHARS updated: '' @ shown)"
    by blast
  then have "statusOutput (saveLimit examplePlatform (answering unshowableResponse) ?a)
               = (case ToString examplePlatform (JObj [(js ''toString'', JNull)]) of
                    Inl e \<Rightarrow> js ''Failed: '' @ message e
                  | Inr shown \<Rightarrow> js ''MAX_ANSWER_CHARS updated: '' @ shown)"
    by (simp only: gu) blast
  then have 4: "statusOutput (saveLimit examplePlatform (answering unshowableResponse) ?a)
           = js ''Failed: Cannot convert object to primitive value''"
    by (simp only: shu) (simp add: js_def)
  show ?thesis using 1 2 3 4 by (simp add: t enteredLimit_examples)
qed

text \<open>
  The claim as stated fails in \<open>saveLimit\<close>: with the token "tok" and the value "20001"
  the client rejects the input on range grounds and sends no request.
\<close>

theorem saveLimit_range_counterexample:
  "trim (tokenInput exampleAdmin) = js ''tok''
   \<and> maxAnswerCharsInput exampleAdmin = js ''20001''
   \<and> saveLimit examplePlatform offline exampleAdmin = exampleAdmin\<lparr>statusOutput := msg_limit_range\<rparr>
   \<and> issued exampleAdmin (saveLimit examplePlatform offline exampleAdmin) = []"
proof -
  have t: "trim (tokenInput exampleAdmin) = js ''tok''" and v: "maxAnswerCharsInput exampleAdmin = js ''20001''"
    by (simp_all add: exampleAdmin_def trim_def isWhiteSpace_def js_def)
  have tn: "trim (tokenInput exampleAdmin) \<noteq> []" by (simp add: t js_def)
  have r: "numLess (Fin 20000) (enteredLimit examplePlatform exampleAdmin)"
    by (simp add: enteredLimit_examples)
  have s: "saveLimit examplePlatform offline exampleAdmin = exampleAdmin\<lparr>statusOutput := msg_limit_range\<rparr>"
    unfolding saveLimit_def Let_def enteredLimit_def [symmetric] using tn r by simp
  show ?thesis using t v s by (simp add: issued_def)
qed


section \<open>Responses that are not OK\<close>

lemma statusError_text:
  "res_text res = Inr t \<Longrightarrow> statusError res = Error (showNat (status res) @ js '' '' @ t)"
  by (simp add: statusError_def)

lemma last_botRow:
  "snd (last (messagesEl (botRow m s))) = BotRow m None"
  by (simp add: botRow_def)

lemma sendQuestion_non_ok:
  assumes "trim (passwordInput s) \<noteq> []" and "submittedQuestion s \<noteq> []"
    and "net (nextFetch s) = Inr res" and "\<not> ok res" and "res_text res = Inr t"
  shows "snd (last (messagesEl (sendQuestion P net s)))
         = BotRow (js ''Failed: '' @ showNat (status res) @ js '' '' @ t) None"
proof -
  have n: "nextFetch (snd (typingState s)) = nextFetch s"
    by (simp add: nextFetch_def typingState_frame)
  have "fst (sendQuestion_try P net (trim (passwordInput s)) (submittedQuestion s)
             (selectedImageDataUrl s) (fst (typingState s)) (snd (typingState s)))
        = Inl (Error (showNat (status res) @ js '' '' @ t))"
    using assms(3-5) n
    by (simp add: sendQuestion_try_def fetch_def await_def Let_def statusError_text nextFetch_def)
  then show ?thesis
    unfolding sendQuestion_unblocked_eq [OF assms(1,2)] case_prod_unfold
    by (simp add: last_botRow)
qed

lemma submitFeedback_non_ok:
  assumes "trim (passwordInput s) \<noteq> []" and "trim correction \<noteq> []"
    and "net (nextFetch s) = Inr res" and "\<not> ok res" and "res_text res = Inr t"
  shows "snd (last (messagesEl (submitFeedback P net (Some correction) question badAnswer s)))
         = BotRow (msg_feedback_failed @ showNat (status res) @ js '' '' @ t) None"
proof -
  have c: "correction \<noteq> []" using assms(2) by (auto simp add: trim_def)
  show ?thesis
    using assms c
    by (simp add: submitFeedback_def submitFeedback_try_def fetch_def await_def Let_def
        statusError_text nextFetch_def appendBotMessage_string last_botRow)
qed

lemma loadStatus_non_ok:
  assumes "trim (tokenInput s) \<noteq> []"
    and "net (nextFetch s) = Inr res" and "\<not> ok res" and "res_text res = Inr t"
  shows "statusOutput (loadStatus P net s) = js ''Failed: '' @ showNat (status res) @ js '' '' @ t"
  using assms
  by (simp add: loadStatus_def loadStatus_try_def fetch_def await_def Let_def
      statusError_text nextFetch_def)

lemma saveLimit_non_ok:
  assumes "trim (tokenInput s) \<noteq> []" and "\<exists>n\<le>20000. enteredLimit P s = Fin (of_nat n)"
    and "net (nextFetch s) = Inr res" and "\<not> ok res" and "res_text res = Inr t"
  shows "statusOutput (saveLimit P net s) = js ''Failed: '' @ showNat (status res) @ js '' '' @ t"
proof -
  have "\<not> (\<not> Number_isInteger (enteredLimit P s) \<or> numLess (enteredLimit P s) (Fin 0)
               \<or> numLess (Fin 20000) (enteredLimit P s))"
    using assms(2) by (simp only: limit_accepted)
  then show ?thesis
    unfolding saveLimit_def Let_def enteredLimit_def [symmetric]
    using assms(1,3-5)
    by (simp add: saveLimit_try_def fetch_def await_def nextFetch_def Let_def statusError_text)
qed

lemma savePrompt_non_ok:
  assumes "trim (tokenInput s) \<noteq> []" and "trim (defaultPromptInput s) \<noteq> []"
    and "net (nextFetch s) = Inr res" and "\<not> ok res" and "res_text res = Inr t"
  shows "statusOutput (savePrompt net s) = js ''Failed: '' @ showNat (status res) @ js '' '' @ t"
  using assms
  by (simp add: savePrompt_def savePrompt_try_def fetch_def await_def Let_def
      statusError_text nextFetch_def)

lemma downloadFeedback_non_ok:
  assumes "trim (tokenInput s) \<noteq> []"
    and "net (nextFetch s) = Inr res" and "\<not> ok res" and "res_text res = Inr t"
  shows "statusOutput (downloadFeedback net s)
         = msg_download_failed @ showNat (status res) @ js '' '' @ t"
  using assms
  by (simp add: downloadFeedback_def downloadFeedback_try_def fetch_def await_def Let_def
      statusError_text nextFetch_def)

lemma loadConfig_non_ok:
  assumes "net (nextFetch s) = Inr res" and "\<not> ok res"
  shows "loadConfig P net s =
     (if trim (tokenInput s) = [] then s
      else s\<lparr>trace := trace s @
             [Started (nextFetch s)
                \<lparr>url = js ''/api/admin/config'', http_method = js ''GET'',
                 headers = [(js ''X-Admin-Token'', trim (tokenInput s))], body = NoBody\<rparr>,
              Settled (nextFetch s)]\<rparr>)"
  using assms
  by (simp add: loadConfig_def fetch_def await_def Let_def nextFetch_def)

lemma uploadSingleFile_fallback:
  "\<not> binaryAttemptOk net file s \<Longrightarrow>
   fst (uploadSingleFile net token file s) =
     (case fileToBase64 file of
        Inl e \<Rightarrow> Inl e
      | Inr c \<Rightarrow> (case net (fallbackFetch file s) of
                    Inl e \<Rightarrow> Inl e
                  | Inr res \<Rightarrow> if ok res then Inr () else Inl (statusError res)))"
  by (auto simp add: uploadSingleFile_def uploadSingleFile_try_def binaryAttemptOk_def
      fallbackFetch_def fetch_def await_def nextFetch_def Let_def
      split: option.splits sum.splits)

lemma uploadFiles_loop_append:
  "uploadFiles_loop net token (xs @ ys) (d, fl, s) =
   uploadFiles_loop net token ys (uploadFiles_loop net token xs (d, fl, s))"
proof (induction xs arbitrary: d fl s)
  case Nil
  then show ?case by simp
next
  case (Cons x xs)
  show ?case
    by (cases "uploadSingleFile net token x s") (simp add: Cons split: sum.splits)
qed

lemma failures_uploadFiles_loop:
  "\<exists>ext. fst (snd (uploadFiles_loop net token files (d, fl, s))) = fl @ ext"
proof (induction files arbitrary: d fl s)
  case Nil
  then show ?case by simp
next
  case (Cons f files)
  obtain r s1 where u: "uploadSingleFile net token f s = (r, s1)"
    by (cases "uploadSingleFile net token f s")
  show ?case
  proof (cases r)
    case (Inl e)
    from Cons [of d "fl @ [file_name f @ js '': '' @ message e]" s1]
    obtain ext where "fst (snd (uploadFiles_loop net token files
        (d, fl @ [file_name f @ js '': '' @ message e], s1)))
        = (fl @ [file_name f @ js '': '' @ message e]) @ ext" by blast
    then show ?thesis using u Inl by simp
  next
    case (Inr v)
    from Cons [of "d + 1" fl s1] show ?thesis using u Inr by simp
  qed
qed

lemma join_contains:
  "x \<in> set xs \<Longrightarrow> \<exists>before after. join sep xs = before @ x @ after"
proof (induction sep xs rule: join.induct)
  case (1 sep)
  then show ?case by simp
next
  case (2 sep y)
  then have "join sep [y] = [] @ x @ []" by simp
  then show ?case by blast
next
  case (3 sep y z zs)
  show ?case
  proof (cases "x = y")
    case True
    then have "join sep (y # z # zs) = [] @ x @ (sep @ join sep (z # zs))" by simp
    then show ?thesis by blast
  next
    case False
    with 3 obtain b a where "join sep (z # zs) = b @ x @ a" by auto
    then have "join sep (y # z # zs) = (y @ sep @ b) @ x @ a" by simp
    then show ?thesis by blast
  qed
qed

lemma uploadFiles_shows_failure:
  assumes t: "trim (tokenInput s) \<noteq> []" and f: "filesInput s = pre @ file # post"
    and e: "fst (uploadSingleFile net (trim (tokenInput s)) file (uploadFiles_after net s pre)) = Inl err"
  shows "\<exists>before after. statusOutput (uploadFiles P net s)
           = before @ (file_name file @ js '': '' @ message err) @ after"
proof -
  let ?tok = "trim (tokenInput s)"
  let ?m = "file_name file @ js '': '' @ message err"
  define s1 where "s1 = s\<lparr>statusOutput := js ''Uploading '' @ showNat (length (filesInput s))
                                   @ js '' file(s)...''\<rparr>"
  obtain d fl si where p: "uploadFiles_loop net ?tok pre (0, [], s1) = (d, fl, si)"
    by (cases "uploadFiles_loop net ?tok pre (0, [], s1)")
  then have si: "uploadFiles_after net s pre = si"
    by (simp add: uploadFiles_after_def s1_def)
  obtain s' where u: "uploadSingleFile net ?tok file si = (Inl err, s')"
    using e unfolding si by (cases "uploadSingleFile net ?tok file si") simp
  have "uploadFiles_loop net ?tok (pre @ file # post) (0, [], s1)
        = uploadFiles_loop net ?tok post (d, fl @ [?m], s')"
    by (simp add: uploadFiles_loop_append p u)
  moreover obtain ext where "fst (snd (uploadFiles_loop net ?tok post (d, fl @ [?m], s')))
        = (fl @ [?m]) @ ext"
    using failures_uploadFiles_loop by blast
  ultimately obtain d2 s2 where "uploadFiles_loop net ?tok (pre @ file # post) (0, [], s1)
        = (d2, fl @ [?m] @ ext, s2)"
    by (cases "uploadFiles_loop net ?tok post (d, fl @ [?m], s')") simp
  then have l: "uploadFiles_loop net ?tok (filesInput s) (0, [], s\<lparr>statusOutput :=
        js ''Uploading '' @ showNat (length (filesInput s)) @ js '' file(s)...''\<rparr>)
        = (d2, fl @ [?m] @ ext, s2)"
    by (simp only: f [symmetric] s1_def)
  have "?m \<in> set (fl @ [?m] @ ext)" by simp
  from join_contains [OF this, of "js ''\<newline>- ''"]
  obtain b a where j: "join (js ''\<newline>- '') (fl @ [?m] @ ext) = b @ ?m @ a"
    by blast
  have ne: "filesInput s \<noteq> []" using f by simp
  let ?s4 = "loadStatus P net (s2\<lparr>filesInput := []\<rparr>)"
  have "statusOutput (uploadFiles P net s) =
          (statusOutput ?s4 @ js ''\<newline>\<newline>Uploaded: '' @ showNat d2
             @ js ''/'' @ showNat (length (filesInput s)) @ js ''\<newline>Failed:\<newline>- '' @ b) @ ?m @ a"
    using t ne j by (simp add: uploadFiles_def Let_def l)
  then show ?thesis by blast
qed

lemma uploadSingleFile_fallback_non_ok:
  assumes "\<not> binaryAttemptOk net file s" and "fileToBase64 file = Inr c"
    and "net (fallbackFetch file s) = Inr res" and "\<not> ok res" and "res_text res = Inr t"
  shows "fst (uploadSingleFile net token file s) = Inl (Error (showNat (status res) @ js '' '' @ t))"
  using assms by (simp add: uploadSingleFile_fallback statusError_text)

lemma uploadSingleFile_binary_non_ok:
  assumes "encodeURIComponent (file_name file) \<noteq> None"
    and "net (nextFetch s) = Inr res" and "\<not> ok res"
  shows "fst (uploadSingleFile net token file s) =
     (case fileToBase64 file of
        Inl e \<Rightarrow> Inl e
      | Inr encoded \<Rightarrow>
          (case net (Suc (nextFetch s)) of
             Inl e \<Rightarrow> Inl e
           | Inr res2 \<Rightarrow> if ok res2 then Inr () else Inl (statusError res2)))"
proof -
  have "\<not> binaryAttemptOk net file s"
    using assms by (simp add: binaryAttemptOk_def)
  moreover have "fallbackFetch file s = Suc (nextFetch s)"
    using assms(1) by (simp add: fallbackFetch_def)
  ultimately show ?thesis
    by (simp add: uploadSingleFile_fallback cong: sum.case_cong)
qed

lemma uploadFiles_fallback_non_ok:
  assumes "trim (tokenInput s) \<noteq> []" and "filesInput s = pre @ file # post"
    and "\<not> binaryAttemptOk net file (uploadFiles_after net s pre)"
    and "fileToBase64 file = Inr c"
    and "net (fallbackFetch file (uploadFiles_after net s pre)) = Inr res"
    and "\<not> ok res" and "res_text res = Inr t"
  shows "\<exists>before after. statusOutput (uploadFiles P net s)
           = before @ (file_name file @ js '': '' @ showNat (status res) @ js '' '' @ t) @ after"
proof -
  have "fst (uploadSingleFile net (trim (tokenInput s)) file (uploadFiles_after net s pre))
        = Inl (Error (showNat (status res) @ js '' '' @ t))"
    using assms(3-7) by (rule uploadSingleFile_fallback_non_ok)
  from uploadFiles_shows_failure [OF assms(1,2) this, of P]
  show ?thesis by simp
qed

lemma example_facts:
  shows textFile_encoded: "encodeURIComponent (file_name textFile) = Some (js ''a.txt'')"
    and textFile_base64: "fileToBase64 textFile = Inr (js ''YWJj'')"
    and unreadableFile_encoded: "encodeURIComponent (file_name unreadableFile) = Some (js ''a.txt'')"
    and unreadableFile_base64:
      "fileToBase64 unreadableFile = Inl (Error (js ''The file could not be read''))"
  by (simp_all add: fileToBase64_def textFile_def unreadableFile_def fileToBase64_loop.simps
      chunkSize_def subarray_def fromCharCode_def btoa_def base64Char_def js_def uriUnreserved_def)

lemma example_upload_refused:
  "statusOutput (uploadFiles examplePlatform (answering errorResponse)
                   (exampleAdmin\<lparr>filesInput := [textFile]\<rparr>))
   = js ''Failed: 500 boom'' @ [0x0A, 0x0A] @ js ''Uploaded: 0/1'' @ [0x0A] @ js ''Failed:''
       @ [0x0A] @ js ''- a.txt: 500 boom''"
proof -
  have t: "trim (tokenInput (exampleAdmin\<lparr>filesInput := [textFile]\<rparr>)) = js ''tok''"
    by (simp add: exampleAdmin_def trim_def isWhiteSpace_def js_def)
  have tn: "js ''tok'' \<noteq> []" by (simp add: js_def)
  have r: "\<not> ok errorResponse" "res_text errorResponse = Inr (js ''boom'')"
    "status errorResponse = 500"
    by (simp_all add: errorResponse_def ok_def)
  show ?thesis
    unfolding uploadFiles_def Let_def t
    by (simp add: tn exampleAdmin_def uploadSingleFile_def uploadSingleFile_try_def
        textFile_encoded textFile_base64 r statusError_def
        fetch_def await_def answering_def loadStatus_def loadStatus_try_def
        uploadBinaryRequest_def uploadRequest_def trim_def)
      (simp add: js_def isWhiteSpace_def showNat.simps textFile_def)
qed

text \<open>
  Claim C4, as amended. When the response to its request is not OK and the body text can
  be read, each of \<open>sendQuestion\<close>, \<open>submitFeedback\<close>, \<open>loadStatus\<close>, \<open>saveLimit\<close>,
  \<open>savePrompt\<close> and \<open>downloadFeedback\<close> shows a failure message: a fixed prefix, the status
  code in decimal, a space and the body text as it is. So it is with the fallback request
  of an upload: \<open>uploadSingleFile\<close> throws an error of the status code, a space and the body
  text, and \<open>uploadFiles\<close> shows them after the name of the file in its list of failures.
  \<open>loadConfig\<close> shows nothing for a response that is not OK. The response to the binary
  upload is not reported either when it is not OK: the outcome of \<open>uploadSingleFile\<close> is
  then the outcome of reading the file and of the fallback request.
\<close>

theorem non_ok_response_message:
  "\<not> ok res \<and> res_text res = Inr t \<longrightarrow>
     (trim (passwordInput u) \<noteq> [] \<and> net (nextFetch u) = Inr res \<longrightarrow>
        (submittedQuestion u \<noteq> [] \<longrightarrow>
           snd (last (messagesEl (sendQuestion P net u)))
             = BotRow (js ''Failed: '' @ showNat (status res) @ js '' '' @ t) None)
        \<and> (trim correction \<noteq> [] \<longrightarrow>
           snd (last (messagesEl (submitFeedback P net (Some correction) question badAnswer u)))
             = BotRow (msg_feedback_failed @ showNat (status res) @ js '' '' @ t) None))
     \<and> (trim (tokenInput a) \<noteq> [] \<and> net (nextFetch a) = Inr res \<longrightarrow>
        statusOutput (loadStatus P net a) = js ''Failed: '' @ showNat (status res) @ js '' '' @ t
        \<and> statusOutput (downloadFeedback net a)
             = msg_download_failed @ showNat (status res) @ js '' '' @ t
        \<and> (trim (defaultPromptInput a) \<noteq> [] \<longrightarrow>
             statusOutput (savePrompt net a) = js ''Failed: '' @ showNat (status res) @ js '' '' @ t)
        \<and> ((\<exists>n\<le>20000. enteredLimit P a = Fin (of_nat n)) \<longrightarrow>
             statusOutput (saveLimit P net a) = js ''Failed: '' @ showNat (status res) @ js '' '' @ t)
        \<and> statusOutput (loadConfig P net a) = statusOutput a)
     \<and> (\<not> binaryAttemptOk net f b \<and> fileToBase64 f = Inr c
          \<and> net (fallbackFetch f b) = Inr res \<longrightarrow>
        fst (uploadSingleFile net token f b)
          = Inl (Error (showNat (status res) @ js '' '' @ t)))
     \<and> (trim (tokenInput d) \<noteq> [] \<and> filesInput d = pre @ f # post
          \<and> \<not> binaryAttemptOk net f (uploadFiles_after net d pre) \<and> fileToBase64 f = Inr c
          \<and> net (fallbackFetch f (uploadFiles_after net d pre)) = Inr res \<longrightarrow>
        (\<exists>before after. statusOutput (uploadFiles P net d)
           = before @ (file_name f @ js '': '' @ showNat (status res) @ js '' '' @ t) @ after))
     \<and> (encodeURIComponent (file_name f) \<noteq> None \<and> net (nextFetch b) = Inr res \<longrightarrow>
        fst (uploadSingleFile net token f b) =
          (case fileToBase64 f of
             Inl e \<Rightarrow> Inl e
           | Inr encoded \<Rightarrow>
               (case net (Suc (nextFetch b)) of
                  Inl e \<Rightarrow> Inl e
                | Inr res2 \<Rightarrow> if ok res2 then Inr () else Inl (statusError res2))))"
proof -
  let ?H = "\<not> ok res \<and> res_text res = Inr t"
  have 1: "?H \<longrightarrow>
     (trim (passwordInput u) \<noteq> [] \<and> net (nextFetch u) = Inr res \<longrightarrow>
        (submittedQuestion u \<noteq> [] \<longrightarrow>
           snd (last (messagesEl (sendQuestion P net u)))
             = BotRow (js ''Failed: '' @ showNat (status res) @ js '' '' @ t) None)
        \<and> (trim correction \<noteq> [] \<longrightarrow>
           snd (last (messagesEl (submitFeedback P net (Some correction) question badAnswer u)))
             = BotRow (msg_feedback_failed @ showNat (status res) @ js '' '' @ t) None))"
    by (simp add: sendQuestion_non_ok submitFeedback_non_ok)
  have 2: "?H \<longrightarrow>
     (trim (tokenInput a) \<noteq> [] \<and> net (nextFetch a) = Inr res \<longrightarrow>
        statusOutput (loadStatus P net a) = js ''Failed: '' @ showNat (status res) @ js '' '' @ t
        \<and> statusOutput (downloadFeedback net a)
             = msg_download_failed @ showNat (status res) @ js '' '' @ t
        \<and> (trim (defaultPromptInput a) \<noteq> [] \<longrightarrow>
             statusOutput (savePrompt net a) = js ''Failed: '' @ showNat (status res) @ js '' '' @ t)
        \<and> ((\<exists>n\<le>20000. enteredLimit P a = Fin (of_nat n)) \<longrightarrow>
             statusOutput (saveLimit P net a) = js ''Failed: '' @ showNat (status res) @ js '' '' @ t)
        \<and> statusOutput (loadConfig P net a) = statusOutput a)"
    by (simp add: loadStatus_non_ok saveLimit_non_ok savePrompt_non_ok downloadFeedback_non_ok
        loadConfig_non_ok)
  have 3: "?H \<longrightarrow>
     (\<not> binaryAttemptOk net f b \<and> fileToBase64 f = Inr c
          \<and> net (fallbackFetch f b) = Inr res \<longrightarrow>
        fst (uploadSingleFile net token f b)
          = Inl (Error (showNat (status res) @ js '' '' @ t)))"
    using uploadSingleFile_fallback_non_ok [of net f b c res t token] by simp
  have 4: "?H \<longrightarrow>
     (trim (tokenInput d) \<noteq> [] \<and> filesInput d = pre @ f # post
          \<and> \<not> binaryAttemptOk net f (uploadFiles_after net d pre) \<and> fileToBase64 f = Inr c
          \<and> net (fallbackFetch f (uploadFiles_after net d pre)) = Inr res \<longrightarrow>
        (\<exists>before after. statusOutput (uploadFiles P net d)
           = before @ (file_name f @ js '': '' @ showNat (status res) @ js '' '' @ t) @ after))"
    using uploadFiles_fallback_non_ok [of d pre f post net c res t P] by simp
  have 5: "?H \<longrightarrow>
     (encodeURIComponent (file_name f) \<noteq> None \<and> net (nextFetch b) = Inr res \<longrightarrow>
        fst (uploadSingleFile net token f b) =
          (case fileToBase64 f of
             Inl e \<Rightarrow> Inl e
           | Inr encoded \<Rightarrow>
               (case net (Suc (nextFetch b)) of
                  Inl e \<Rightarrow> Inl e
                | Inr res2 \<Rightarrow> if ok res2 then Inr () else Inl (statusError res2))))"
    using uploadSingleFile_binary_non_ok [of f net b res token] by simp
  from 1 2 3 4 5 show ?thesis by blast
qed

text \<open>
  The status 500 with the body "boom", for each of the handlers and for the upload of one
  file. When only the binary upload is refused, the upload succeeds; when the file cannot
  be read, the error of the reading is the outcome.
\<close>

theorem non_ok_response_message_witness:
  "\<not> ok errorResponse
   \<and> res_text errorResponse = Inr (js ''boom'')
   \<and> snd (last (messagesEl (sendQuestion examplePlatform (answering errorResponse) examplePage)))
       = BotRow (js ''Failed: 500 boom'') None
   \<and> snd (last (messagesEl (submitFeedback examplePlatform (answering errorResponse)
                               (Some (js ''wrong'')) (js ''hi'') (JStr (js ''hello'')) examplePage)))
       = BotRow (msg_feedback_failed @ js ''500 boom'') None
   \<and> statusOutput (loadStatus examplePlatform (answering errorResponse)
                      (exampleAdmin\<lparr>maxAnswerCharsInput := js ''500''\<rparr>)) = js ''Failed: 500 boom''
   \<and> statusOutput (downloadFeedback (answering errorResponse)
                      (exampleAdmin\<lparr>maxAnswerCharsInput := js ''500''\<rparr>))
       = msg_download_failed @ js ''500 boom''
   \<and> statusOutput (savePrompt (answering errorResponse)
                      (exampleAdmin\<lparr>maxAnswerCharsInput := js ''500''\<rparr>)) = js ''Failed: 500 boom''
   \<and> statusOutput (saveLimit examplePlatform (answering errorResponse)
                      (exampleAdmin\<lparr>maxAnswerCharsInput := js ''500''\<rparr>)) = js ''Failed: 500 boom''
   \<and> statusOutput (loadConfig examplePlatform (answering errorResponse)
                      (exampleAdmin\<lparr>maxAnswerCharsInput := js ''500''\<rparr>)) = []
   \<and> \<not> binaryAttemptOk (answering errorResponse) textFile exampleAdmin
   \<and> fileToBase64 textFile = Inr (js ''YWJj'')
   \<and> fst (uploadSingleFile (answering errorResponse) (js ''tok'') textFile exampleAdmin)
       = Inl (Error (js ''500 boom''))
   \<and> (\<exists>before after.
         statusOutput (uploadFiles examplePlatform (answering errorResponse)
                         (exampleAdmin\<lparr>filesInput := [textFile]\<rparr>))
         = before @ js ''a.txt: 500 boom'' @ after)
   \<and> statusOutput (uploadFiles examplePlatform (answering errorResponse)
                      (exampleAdmin\<lparr>filesInput := [textFile]\<rparr>))
       = js ''Failed: 500 boom'' @ [0x0A, 0x0A] @ js ''Uploaded: 0/1'' @ [0x0A] @ js ''Failed:''
           @ [0x0A] @ js ''- a.txt: 500 boom''
   \<and> fst (uploadSingleFile refusingFirst (js ''tok'') textFile exampleAdmin) = Inr ()
   \<and> fst (uploadSingleFile (answering errorResponse) (js ''tok'') unreadableFile exampleAdmin)
       = Inl (Error (js ''The file could not be read''))"
proof -
  let ?a = "exampleAdmin\<lparr>maxAnswerCharsInput := js ''500''\<rparr>"
  let ?d = "exampleAdmin\<lparr>filesInput := [textFile]\<rparr>"
  let ?net = "answering errorResponse"
  have r: "\<not> ok errorResponse" "res_text errorResponse = Inr (js ''boom'')"
    by (simp_all add: errorResponse_def ok_def)
  have st: "showNat (status errorResponse) @ js '' '' @ js ''boom'' = js ''500 boom''"
    by (simp add: errorResponse_def showNat.simps js_def)
  have u: "trim (passwordInput examplePage) \<noteq> []" "submittedQuestion examplePage \<noteq> []"
    "trim (js ''wrong'') \<noteq> []"
    by (simp_all add: example_defs)
  have a: "trim (tokenInput ?a) \<noteq> []" "trim (defaultPromptInput ?a) \<noteq> []"
    "trim (tokenInput ?d) \<noteq> []"
    by (simp_all add: exampleAdmin_def trim_def isWhiteSpace_def js_def)
  have l: "\<exists>n\<le>20000. enteredLimit examplePlatform ?a = Fin (of_nat n)"
    unfolding enteredLimit_examples by (rule exI [of _ 500]) simp
  have n: "?net (nextFetch examplePage) = Inr errorResponse" "?net (nextFetch ?a) = Inr errorResponse"
    "?net (fallbackFetch textFile exampleAdmin) = Inr errorResponse"
    "?net (fallbackFetch textFile (uploadFiles_after ?net ?d [])) = Inr errorResponse"
    "?net (nextFetch exampleAdmin) = Inr errorResponse"
    "?net (Suc (nextFetch exampleAdmin)) = Inr errorResponse"
    by (simp_all add: answering_def)
  have nb: "\<not> binaryAttemptOk ?net textFile exampleAdmin"
    "\<not> binaryAttemptOk ?net textFile (uploadFiles_after ?net ?d [])"
    by (simp_all add: binaryAttemptOk_def answering_def r)
  have fi: "filesInput ?d = [] @ textFile # []"
    by simp
  have e: "encodeURIComponent (file_name textFile) \<noteq> None"
    "encodeURIComponent (file_name unreadableFile) \<noteq> None"
    by (simp_all add: textFile_encoded unreadableFile_encoded)
  have rf: "refusingFirst (nextFetch exampleAdmin) = Inr errorResponse"
    "refusingFirst (Suc (nextFetch exampleAdmin)) = Inr kbStatusResponse" "ok kbStatusResponse"
    by (simp_all add: refusingFirst_def nextFetch_def exampleAdmin_def kbStatusResponse_def ok_def)
  have so: "statusOutput ?a = []" by (simp add: exampleAdmin_def)
  note th = non_ok_response_message [where res = errorResponse and t = "js ''boom''"
      and u = examplePage and net = ?net and P = examplePlatform and correction = "js ''wrong''"
      and question = "js ''hi''" and badAnswer = "JStr (js ''hello'')" and a = ?a
      and f = textFile and b = exampleAdmin and c = "js ''YWJj''" and token = "js ''tok''"
      and d = ?d and pre = "[]" and post = "[]"]
  note th2 = non_ok_response_message [where res = errorResponse and t = "js ''boom''"
      and net = refusingFirst and f = textFile and b = exampleAdmin and token = "js ''tok''"]
  note th3 = non_ok_response_message [where res = errorResponse and t = "js ''boom''"
      and net = ?net and f = unreadableFile and b = exampleAdmin and token = "js ''tok''"]
  have f: "js ''Failed: '' @ js ''500 boom'' = js ''Failed: 500 boom''"
    by (simp add: js_def)
  have fn: "file_name textFile @ js '': '' @ js ''500 boom'' = js ''a.txt: 500 boom''"
    by (simp add: textFile_def js_def)
  from th r u a l n
  have "snd (last (messagesEl (sendQuestion examplePlatform ?net examplePage)))
          = BotRow (js ''Failed: '' @ showNat (status errorResponse) @ js '' '' @ js ''boom'') None"
    and "snd (last (messagesEl (submitFeedback examplePlatform ?net
                               (Some (js ''wrong'')) (js ''hi'') (JStr (js ''hello'')) examplePage)))
          = BotRow (msg_feedback_failed @ showNat (status errorResponse) @ js '' '' @ js ''boom'') None"
    and "statusOutput (loadStatus examplePlatform ?net ?a)
          = js ''Failed: '' @ showNat (status errorResponse) @ js '' '' @ js ''boom''"
    and "statusOutput (downloadFeedback ?net ?a)
          = msg_download_failed @ showNat (status errorResponse) @ js '' '' @ js ''boom''"
    and "statusOutput (savePrompt ?net ?a)
          = js ''Failed: '' @ showNat (status errorResponse) @ js '' '' @ js ''boom''"
    and "statusOutput (saveLimit examplePlatform ?net ?a)
          = js ''Failed: '' @ showNat (status errorResponse) @ js '' '' @ js ''boom''"
    and "statusOutput (loadConfig examplePlatform ?net ?a) = statusOutput ?a"
    by blast+
  note old = this
  from th r nb(1) textFile_base64 n(3)
  have 8: "fst (uploadSingleFile ?net (js ''tok'') textFile exampleAdmin)
          = Inl (Error (showNat (status errorResponse) @ js '' '' @ js ''boom''))"
    by blast
  from th r a(3) fi nb(2) textFile_base64 n(4)
  have 9: "\<exists>before after. statusOutput (uploadFiles examplePlatform ?net ?d)
          = before @ (file_name textFile @ js '': '' @ showNat (status errorResponse)
                        @ js '' '' @ js ''boom'') @ after"
    by blast
  from th2 r e(1) rf(1)
  have "fst (uploadSingleFile refusingFirst (js ''tok'') textFile exampleAdmin) =
          (case fileToBase64 textFile of
             Inl e \<Rightarrow> Inl e
           | Inr encoded \<Rightarrow>
               (case refusingFirst (Suc (nextFetch exampleAdmin)) of
                  Inl e \<Rightarrow> Inl e
                | Inr res2 \<Rightarrow> if ok res2 then Inr () else Inl (statusError res2)))"
    by blast
  then have 10: "fst (uploadSingleFile refusingFirst (js ''tok'') textFile exampleAdmin) = Inr ()"
    by (simp add: textFile_base64 rf)
  from th3 r e(2) n(5)
  have "fst (uploadSingleFile ?net (js ''tok'') unreadableFile exampleAdmin) =
          (case fileToBase64 unreadableFile of
             Inl e \<Rightarrow> Inl e
           | Inr encoded \<Rightarrow>
               (case ?net (Suc (nextFetch exampleAdmin)) of
                  Inl e \<Rightarrow> Inl e
                | Inr res2 \<Rightarrow> if ok res2 then Inr () else Inl (statusError res2)))"
    by blast
  then have 11: "fst (uploadSingleFile ?net (js ''tok'') unreadableFile exampleAdmin)
          = Inl (Error (js ''The file could not be read''))"
    by (simp add: unreadableFile_base64)
  show ?thesis
    using old 8 9 10 11 nb(1) textFile_base64 r example_upload_refused
    unfolding st f so fn by simp
qed

text \<open>
  The claim as stated fails for \<open>loadConfig\<close>: its request is answered with the status
  500, and nothing on the page changes.
\<close>

theorem loadConfig_silent_counterexample:
  "answering errorResponse (nextFetch exampleAdmin) = Inr errorResponse
   \<and> \<not> ok errorResponse
   \<and> status errorResponse = 500
   \<and> res_text errorResponse = Inr (js ''boom'')
   \<and> loadConfig examplePlatform (answering errorResponse) exampleAdmin =
       exampleAdmin\<lparr>trace :=
         [Started 0 \<lparr>url = js ''/api/admin/config'', http_method = js ''GET'',
                     headers = [(js ''X-Admin-Token'', js ''tok'')], body = NoBody\<rparr>,
          Settled 0]\<rparr>
   \<and> statusOutput (loadConfig examplePlatform (answering errorResponse) exampleAdmin) = []"
proof -
  have r: "\<not> ok errorResponse" "status errorResponse = 500" "res_text errorResponse = Inr (js ''boom'')"
    by (simp_all add: errorResponse_def ok_def)
  have n: "answering errorResponse (nextFetch exampleAdmin) = Inr errorResponse"
    by (simp add: answering_def)
  have t: "trim (tokenInput exampleAdmin) = js ''tok''" "js ''tok'' \<noteq> []"
    by (simp_all add: exampleAdmin_def trim_def isWhiteSpace_def js_def)
  have k: "nextFetch exampleAdmin = 0" "trace exampleAdmin = []" "statusOutput exampleAdmin = []"
    by (simp_all add: nextFetch_def exampleAdmin_def)
  have "loadConfig examplePlatform (answering errorResponse) exampleAdmin =
       exampleAdmin\<lparr>trace :=
         [Started 0 \<lparr>url = js ''/api/admin/config'', http_method = js ''GET'',
                     headers = [(js ''X-Admin-Token'', js ''tok'')], body = NoBody\<rparr>,
          Settled 0]\<rparr>"
    by (simp add: loadConfig_non_ok [of "answering errorResponse" exampleAdmin errorResponse examplePlatform, OF n r(1)] t k)
  then show ?thesis using r n k by simp
qed


section \<open>One request at a time\<close>

lemma awaited_append: "awaited es \<Longrightarrow> awaited fs \<Longrightarrow> awaited (es @ fs)"
  by (induction es rule: awaited.induct) simp_all

lemma inFlightFrom_awaited:
  "awaited es \<Longrightarrow> length (inFlightFrom [] (take n es)) \<le> 1"
proof (induction es arbitrary: n rule: awaited.induct)
  case 1
  then show ?case by simp
next
  case (2 k r k' es)
  show ?case
  proof (cases n)
    case 0
    then show ?thesis by simp
  next
    case (Suc m)
    show ?thesis
    proof (cases m)
      case 0
      with Suc show ?thesis by simp
    next
      case (Suc l)
      with \<open>n = Suc m\<close> "2.prems" "2.IH" [of l] show ?thesis by simp
    qed
  qed
qed simp_all

lemma inFlight_awaited:
  "awaited es \<Longrightarrow> inFlight es = []"
  by (induction es rule: awaited.induct) (simp_all add: inFlight_def)

lemma newEvents_append: "trace s' = trace s @ es \<Longrightarrow> newEvents s s' = es"
  by (simp add: newEvents_def)

text \<open>Each handler's events.\<close>

lemma awaited_sendQuestion: "awaited (newEvents s (sendQuestion P net s))"
  by (simp add: newEvents_append [OF trace_sendQuestion])

lemma awaited_saveLimit: "awaited (newEvents s (saveLimit P net s))"
  by (simp add: newEvents_append [OF trace_saveLimit])

lemma awaited_savePrompt: "awaited (newEvents s (savePrompt net s))"
  by (simp add: newEvents_append [OF trace_savePrompt])

lemma trace_loadStatus:
  "trace (loadStatus P net s) =
     trace s @
     (if trim (tokenInput s) = [] then []
      else [Started (nextFetch s)
              \<lparr>url = js ''/api/admin/kb-status'', http_method = js ''GET'',
               headers = [(js ''X-Admin-Token'', trim (tokenInput s))], body = NoBody\<rparr>,
            Settled (nextFetch s)])"
  by (simp add: loadStatus_def loadStatus_try_def Let_def case_prod_unfold trace_status_catch
      fetch_def await_def nextFetch_def split: sum.splits jsval.splits)

lemma trace_downloadFeedback:
  "trace (downloadFeedback net s) =
     trace s @
     (if trim (tokenInput s) = [] then []
      else [Started (nextFetch s)
              \<lparr>url = js ''/api/admin/feedback-download'', http_method = js ''GET'',
               headers = [(js ''X-Admin-Token'', trim (tokenInput s))], body = NoBody\<rparr>,
            Settled (nextFetch s)])"
  by (simp add: downloadFeedback_def downloadFeedback_try_def Let_def case_prod_unfold
      trace_status_catch fetch_def await_def nextFetch_def split: sum.splits)

lemma trace_submitFeedback:
  "trace (submitFeedback P net prompt question badAnswer s) =
     trace s @
     (case prompt of
        None \<Rightarrow> []
      | Some correction \<Rightarrow>
          if trim (passwordInput s) = [] \<or> trim correction = [] then []
          else [Started (nextFetch s)
                  (feedbackRequest (trim (passwordInput s)) question badAnswer correction),
                Settled (nextFetch s)])"
proof -
  have c: "trim c = []" if "c = []" for c using that by (simp add: trim_def)
  show ?thesis
    by (auto simp add: submitFeedback_def submitFeedback_try_def Let_def case_prod_unfold
        appendBotMessage_def uncaught_def fetch_def await_def nextFetch_def c
        split: sum.splits option.splits)
qed

lemma handledOneAtATime_intro:
  assumes "trace s' = trace s @ es" and "awaited es"
  shows "handledOneAtATime s s'"
proof -
  have "list_all (\<lambda>n. length (inFlight (take n es)) \<le> 1) [0..<Suc (length es)]"
    using inFlightFrom_awaited [OF assms(2)] by (simp add: list_all_iff inFlight_def)
  with assms show ?thesis
    by (simp add: handledOneAtATime_def oneAtATime_def newEvents_def)
qed

lemma awaited_uploadSingleFile:
  "\<exists>es. trace (snd (uploadSingleFile net token file s)) = trace s @ es \<and> awaited es"
proof -
  let ?t = "snd (uploadSingleFile_try net token file s)"
  let ?first = "case encodeURIComponent (file_name file) of
                  None \<Rightarrow> []
                | Some n \<Rightarrow> [Started (nextFetch s) (uploadBinaryRequest token file n),
                             Settled (nextFetch s)]"
  let ?second = "if binaryAttemptOk net file s then []
      else (case fileToBase64 file of
              Inl e \<Rightarrow> []
            | Inr c \<Rightarrow> [Started (nextFetch ?t) (uploadRequest token file c), Settled (nextFetch ?t)])"
  have "trace (snd (uploadSingleFile net token file s)) = trace s @ (?first @ ?second)"
    by (simp add: trace_uploadSingleFile trace_uploadSingleFile_try)
  moreover have "awaited ?first" by (simp split: option.splits)
  moreover have "awaited ?second" by (simp split: sum.splits)
  ultimately show ?thesis
    using awaited_append by blast
qed

lemma awaited_uploadFiles_loop:
  "\<exists>es. trace (snd (snd (uploadFiles_loop net token files (d, fl, s)))) = trace s @ es \<and> awaited es"
proof (induction files arbitrary: d fl s)
  case Nil
  then show ?case by simp
next
  case (Cons f files)
  obtain r s1 where X: "uploadSingleFile net token f s = (r, s1)" by fastforce
  from awaited_uploadSingleFile [of net token f s] X
  obtain es1 where 1: "trace s1 = trace s @ es1" "awaited es1" by auto
  show ?case
  proof (cases r)
    case (Inl e)
    from Cons.IH [of d "fl @ [file_name f @ js '': '' @ message e]" s1]
    obtain es2 where 2: "trace (snd (snd (uploadFiles_loop net token files
           (d, fl @ [file_name f @ js '': '' @ message e], s1)))) = trace s1 @ es2" "awaited es2"
      by auto
    have "trace (snd (snd (uploadFiles_loop net token (f # files) (d, fl, s)))) = trace s @ (es1 @ es2)"
      by (simp add: X Inl 1 2)
    with 1 2 show ?thesis using awaited_append by blast
  next
    case (Inr u)
    from Cons.IH [of "Suc d" fl s1]
    obtain es2 where 2: "trace (snd (snd (uploadFiles_loop net token files (Suc d, fl, s1))))
           = trace s1 @ es2" "awaited es2"
      by auto
    have "trace (snd (snd (uploadFiles_loop net token (f # files) (d, fl, s)))) = trace s @ (es1 @ es2)"
      by (simp add: X Inr 1 2)
    with 1 2 show ?thesis using awaited_append by blast
  qed
qed

lemma trace_uploadFiles:
  assumes "trim (tokenInput s) \<noteq> []" and "filesInput s \<noteq> []"
  shows "trace (uploadFiles P net s) =
     trace (loadStatus P net
       ((snd (snd (uploadFiles_loop net (trim (tokenInput s)) (filesInput s)
          (0, [], s\<lparr>statusOutput := js ''Uploading '' @ showNat (length (filesInput s))
                                      @ js '' file(s)...''\<rparr>))))\<lparr>filesInput := []\<rparr>))"
proof -
  have i: "trace (if b then (x :: admin_page)\<lparr>statusOutput := y\<rparr> else x) = trace x" for b x y
    by simp
  show ?thesis
    unfolding uploadFiles_def Let_def case_prod_unfold
    using assms by (simp only: if_False i)
qed

lemma awaited_loadStatus:
  "\<exists>es. trace (loadStatus P net s) = trace s @ es \<and> awaited es"
proof -
  have "awaited (if trim (tokenInput s) = [] then []
      else [Started (nextFetch s)
              \<lparr>url = js ''/api/admin/kb-status'', http_method = js ''GET'',
               headers = [(js ''X-Admin-Token'', trim (tokenInput s))], body = NoBody\<rparr>,
            Settled (nextFetch s)])"
    by simp
  with trace_loadStatus [of P net s] show ?thesis by blast
qed

lemma awaited_uploadFiles:
  "\<exists>es. trace (uploadFiles P net s) = trace s @ es \<and> awaited es"
proof (cases "trim (tokenInput s) = [] \<or> filesInput s = []")
  case True
  then have "trace (uploadFiles P net s) = trace s @ []"
    by (auto simp add: uploadFiles_def Let_def)
  moreover have "awaited []" by simp
  ultimately show ?thesis by blast
next
  case False
  let ?s1 = "s\<lparr>statusOutput := js ''Uploading '' @ showNat (length (filesInput s)) @ js '' file(s)...''\<rparr>"
  let ?l = "uploadFiles_loop net (trim (tokenInput s)) (filesInput s) (0, [], ?s1)"
  let ?s3 = "(snd (snd ?l))\<lparr>filesInput := []\<rparr>"
  from awaited_uploadFiles_loop [of net "trim (tokenInput s)" "filesInput s" 0 "[]" ?s1]
  obtain es1 where 1: "trace (snd (snd ?l)) = trace s @ es1" "awaited es1" by auto
  from awaited_loadStatus [of P net ?s3]
  obtain es2 where 2: "trace (loadStatus P net ?s3) = trace ?s3 @ es2" "awaited es2"
    by blast
  have "trace (uploadFiles P net s) = trace (loadStatus P net ?s3)"
    using False by (simp add: trace_uploadFiles)
  then have "trace (uploadFiles P net s) = trace s @ (es1 @ es2)"
    by (simp add: 1 2)
  with 1 2 show ?thesis using awaited_append by blast
qed

text \<open>
  Claim C7. In the run of each event handler, every HTTP request is awaited before the
  next one is started, so that at every moment at most one request of the handler is in
  flight: the events the handler adds to the trace are pairs of a request started and
  the same request settled. This holds for the loop of \<open>uploadFiles\<close> over the files, with
  the \<open>loadStatus\<close> that follows it, and for the binary attempt and the fallback of
  \<open>uploadSingleFile\<close>. The run of one handler is considered; the handlers of two user
  actions may overlap, as nothing cancels a request.
\<close>

theorem requests_one_at_a_time:
  "handledOneAtATime u (sendQuestion P net u)
   \<and> handledOneAtATime u (questionInput_keydown P net event u)
   \<and> handledOneAtATime u (submitFeedback P net prompt question badAnswer u)
   \<and> handledOneAtATime u (imageFileInput_change P u)
   \<and> handledOneAtATime a (loadStatus P net a)
   \<and> handledOneAtATime a (snd (uploadSingleFile net token file a))
   \<and> handledOneAtATime a (uploadFiles P net a)
   \<and> handledOneAtATime a (saveLimit P net a)
   \<and> handledOneAtATime a (savePrompt net a)
   \<and> handledOneAtATime a (downloadFeedback net a)"
proof (intro conjI)
  show 1: "handledOneAtATime u (sendQuestion P net u)"
    by (rule handledOneAtATime_intro [OF trace_sendQuestion]) simp
  show "handledOneAtATime u (questionInput_keydown P net event u)"
  proof (cases "key event = js ''Enter'' \<and> \<not> isComposing u \<and> \<not> event_isComposing event
                 \<and> keyCode event \<noteq> 229")
    case True
    then have "questionInput_keydown P net event u = sendQuestion P net u"
      by (simp add: questionInput_keydown_def)
    with 1 show ?thesis by simp
  next
    case False
    then have "trace (questionInput_keydown P net event u) = trace u @ []"
      by (auto simp add: questionInput_keydown_def)
    then show ?thesis by (rule handledOneAtATime_intro) simp
  qed
  show "handledOneAtATime u (submitFeedback P net prompt question badAnswer u)"
    by (rule handledOneAtATime_intro [OF trace_submitFeedback]) (simp split: option.splits)
  have "trace (imageFileInput_change P u) = trace u @ []"
    by (simp add: imageFileInput_change_def imageFileInput_change_try_def appendBotMessage_def
        uncaught_def Let_def split: list.splits sum.splits)
  then show "handledOneAtATime u (imageFileInput_change P u)"
    by (rule handledOneAtATime_intro) simp
  show "handledOneAtATime a (loadStatus P net a)"
    by (rule handledOneAtATime_intro [OF trace_loadStatus]) simp
  show "handledOneAtATime a (snd (uploadSingleFile net token file a))"
    using awaited_uploadSingleFile [of net token "file" a] handledOneAtATime_intro by blast
  show "handledOneAtATime a (uploadFiles P net a)"
    using awaited_uploadFiles [of P net a] handledOneAtATime_intro by blast
  show "handledOneAtATime a (saveLimit P net a)"
    by (rule handledOneAtATime_intro [OF trace_saveLimit]) simp
  show "handledOneAtATime a (savePrompt net a)"
    by (rule handledOneAtATime_intro [OF trace_savePrompt]) simp
  show "handledOneAtATime a (downloadFeedback net a)"
    by (rule handledOneAtATime_intro [OF trace_downloadFeedback]) simp
qed

text \<open>
  Two files are uploaded to a server that refuses the first request: the binary attempt,
  the fallback, the binary attempt for the second file, then the status request.
\<close>

lemma example_upload:
  "map url (requests (trace (uploadFiles examplePlatform refusingFirst
       (exampleAdmin\<lparr>filesInput := [textFile, textFile]\<rparr>))))
   = [js ''/api/admin/upload-binary'', js ''/api/admin/upload'',
      js ''/api/admin/upload-binary'', js ''/api/admin/kb-status'']"
proof -
  have e: "encodeURIComponent (file_name textFile) = Some (js ''a.txt'')"
    by (simp add: textFile_def js_def uriUnreserved_def)
  have b: "fileToBase64 textFile = Inr (js ''YWJj'')"
    by (simp add: fileToBase64_def textFile_def fileToBase64_loop.simps chunkSize_def subarray_def
        fromCharCode_def btoa_def base64Char_def js_def)
  have t: "trim (tokenInput (exampleAdmin\<lparr>filesInput := [textFile, textFile]\<rparr>)) = js ''tok''"
    by (simp add: exampleAdmin_def trim_def isWhiteSpace_def js_def)
  have tn: "js ''tok'' \<noteq> []" by (simp add: js_def)
  have r: "\<not> ok errorResponse" "ok kbStatusResponse"
    by (simp_all add: errorResponse_def kbStatusResponse_def ok_def)
  show ?thesis
    unfolding uploadFiles_def Let_def t
    by (simp add: tn exampleAdmin_def uploadSingleFile_def uploadSingleFile_try_def e b r
        fetch_def await_def refusingFirst_def loadStatus_def loadStatus_try_def
        uploadBinaryRequest_def uploadRequest_def trim_def)
      (simp add: js_def isWhiteSpace_def kbStatusResponse_def Let_def Array_join_def)
qed

theorem requests_one_at_a_time_witness:
  "handledOneAtATime (exampleAdmin\<lparr>filesInput := [textFile, textFile]\<rparr>)
     (uploadFiles examplePlatform refusingFirst (exampleAdmin\<lparr>filesInput := [textFile, textFile]\<rparr>))
   \<and> map url (requests (trace (uploadFiles examplePlatform refusingFirst
         (exampleAdmin\<lparr>filesInput := [textFile, textFile]\<rparr>))))
       = [js ''/api/admin/upload-binary'', js ''/api/admin/upload'',
          js ''/api/admin/upload-binary'', js ''/api/admin/kb-status'']
   \<and> handledOneAtATime examplePage (sendQuestion examplePlatform refusingFirst examplePage)"
  using requests_one_at_a_time [of examplePage examplePlatform refusingFirst _ _ _ _
      "exampleAdmin\<lparr>filesInput := [textFile, textFile]\<rparr>"]
    example_upload
  by simp

end
